theory Spec2Isabelle
  imports Complex_Main
begin

section \<open>Python values, exceptions and string helpers\<close>

text \<open>
  The callbacks of \<^verbatim>\<open>mindcv/utils/callbacks.py\<close> are modelled by explicit state passing.
  Every exception the Python code can raise is a value of \<open>error\<close>; a call returns the
  exception (or the normal result) together with the state it leaves behind, so that the
  effects that happened before a raise stay visible.  Tensor elements and metric values are
  real numbers; a tensor is the list of its elements.
\<close>

datatype error =
    AttributeError | IndexError | KeyError | TypeError | ValueError | ZeroDivisionError

text \<open>Python's \<^verbatim>\<open>a % b\<close> on integers: the result has the sign of \<open>b\<close>, and \<open>b = 0\<close> raises.\<close>

definition py_mod :: "int \<Rightarrow> int \<Rightarrow> error + int" where
  "py_mod a b = (if b = 0 then Inl ZeroDivisionError else Inr (a mod b))"

text \<open>\<^verbatim>\<open>str(n)\<close> for an integer: decimal digits, with a leading minus sign.\<close>

definition digit :: "nat \<Rightarrow> char" where
  "digit d = ''0123456789'' ! d"

fun str_nat :: "nat \<Rightarrow> string" where
  "str_nat n = (if n < 10 then [digit n] else str_nat (n div 10) @ [digit (n mod 10)])"

declare str_nat.simps [simp del]

definition str_int :: "int \<Rightarrow> string" where
  "str_int i = (if i < 0 then CHR ''-'' # str_nat (nat (- i)) else str_nat (nat i))"

text \<open>\<^verbatim>\<open>s.startswith(p)\<close>.\<close>

definition startswith :: "string \<Rightarrow> string \<Rightarrow> bool" where
  "startswith s p = (take (length p) s = p)"

text \<open>
  \<^verbatim>\<open>s.split(sep)\<close>: the pieces between the occurrences of \<open>sep\<close>, found from left to
  right without overlap.  An empty separator raises \<^verbatim>\<open>ValueError\<close>.
\<close>

function split_from :: "string \<Rightarrow> string \<Rightarrow> string \<Rightarrow> string list" where
  "split_from sep acc [] = [acc]"
| "split_from sep acc (c # cs) =
     (if sep \<noteq> [] \<and> startswith (c # cs) sep
      then acc # split_from sep [] (drop (length sep) (c # cs))
      else split_from sep (acc @ [c]) cs)"
  by pat_completeness auto
termination
  by (relation "measure (\<lambda>(sep, acc, s). length s)") auto

definition py_split :: "string \<Rightarrow> string \<Rightarrow> error + string list" where
  "py_split s sep = (if sep = [] then Inl ValueError else Inr (split_from sep [] s))"

text \<open>\<^verbatim>\<open>os.path.join(a, b)\<close> of \<^verbatim>\<open>posixpath\<close>, for two components.\<close>

definition path_join :: "string \<Rightarrow> string \<Rightarrow> string" where
  "path_join a b =
     (if startswith b ''/'' then b
      else if a = [] \<or> last a = CHR ''/'' then a @ b
      else a @ ''/'' @ b)"

text \<open>
  The values a network can hand to the callback as \<^verbatim>\<open>net_outputs\<close>.  A Python \<^verbatim>\<open>bool\<close>
  is an \<^verbatim>\<open>int\<close>; \<open>PObject\<close> stands for a value of any other type (a string, a dict, ...).
\<close>

datatype pyval =
    PNone
  | PInt int
  | PFloat real
  | PTensor "real list"
  | PList "pyval list"
  | PTuple "pyval list"
  | PObject string

section \<open>The callback parameters\<close>

text \<open>
  \<^verbatim>\<open>run_context.original_args()\<close>: the fields of the training engine's parameter object
  that the callbacks read.  Parameters of a network are identified by their names; an
  optimizer is identified by a number and carries its \<^verbatim>\<open>global_step\<close>.
\<close>

record optimizer =
  optimizer_id :: nat
  global_step :: int

record cb_params =
  cur_epoch_num :: int
  epoch_num :: int
  batch_num :: int
  cur_step_num :: int
  net_outputs :: pyval
  cb_optimizer :: "optimizer option"
  train_network_optimizer :: optimizer
  train_network_network_optimizer :: optimizer
  train_network_parameters :: "string list"
  train_network_network_parameters :: "string list"
  cache_enable :: "string \<Rightarrow> bool"

section \<open>ValCallback\<close>

record ValCallback =
  log_step_interval :: int

text \<open>
  The state \<^verbatim>\<open>on_eval_step_end\<close> can touch: the callback object, the callback parameters
  and the lines printed to standard output.
\<close>

record eval_world =
  val_callback :: ValCallback
  val_cb_params :: cb_params
  stdout :: "string list"

definition ValCallback_init :: "int \<Rightarrow> ValCallback" where
  "ValCallback_init interval = \<lparr>log_step_interval = interval\<rparr>"

definition on_eval_step_end :: "eval_world \<Rightarrow> (error + unit) \<times> eval_world" where
  "on_eval_step_end w =
     (let cb = val_cb_params w in
      case py_mod (cur_step_num cb) (log_step_interval (val_callback w)) of
        Inl e \<Rightarrow> (Inl e, w)
      | Inr r \<Rightarrow>
          if r = 0
          then (Inr (), w\<lparr>stdout := stdout w @ [str_int (cur_step_num cb) @ ''/'' @ str_int (batch_num cb)]\<rparr>)
          else (Inr (), w))"

section \<open>The loss of a training step\<close>

text \<open>
  \<^verbatim>\<open>Tensor(x)\<close> for a value that is not a tensor yet: a number becomes a tensor of one
  element, a (nested) list or tuple of numbers the tensor of its elements; the framework
  rejects anything else.
\<close>

fun collect :: "(error + 'a list) list \<Rightarrow> error + 'a list" where
  "collect [] = Inr []"
| "collect (Inl e # rs) = Inl e"
| "collect (Inr xs # rs) = (case collect rs of Inl e \<Rightarrow> Inl e | Inr ys \<Rightarrow> Inr (xs @ ys))"

fun Tensor_init :: "pyval \<Rightarrow> error + real list" where
  "Tensor_init PNone = Inl TypeError"
| "Tensor_init (PInt i) = Inr [real_of_int i]"
| "Tensor_init (PFloat x) = Inr [x]"
| "Tensor_init (PTensor xs) = Inr xs"
| "Tensor_init (PList vs) = collect (map Tensor_init vs)"
| "Tensor_init (PTuple vs) = collect (map Tensor_init vs)"
| "Tensor_init (PObject t) = Inl TypeError"

text \<open>\<^verbatim>\<open>np.mean\<close> over all elements of a tensor.\<close>

definition np_mean :: "real list \<Rightarrow> real" where
  "np_mean xs = sum_list xs / real (length xs)"

text \<open>
  \<^verbatim>\<open>StateMonitor._get_loss\<close>.  The result is \<open>None\<close> for Python's \<^verbatim>\<open>None\<close>, and the
  tensor otherwise.  The two warnings it logs are not modelled.
\<close>

definition get_loss :: "cb_params \<Rightarrow> error + real list option" where
  "get_loss cb =
     (let output = net_outputs cb in
      if output = PNone then Inr None
      else
        let loss_opt =
          (case output of
             PInt i \<Rightarrow> Some output
           | PFloat x \<Rightarrow> Some output
           | PTensor xs \<Rightarrow> Some output
           | PList vs \<Rightarrow> (if vs \<noteq> [] then Some (hd vs) else None)
           | PTuple vs \<Rightarrow> (if vs \<noteq> [] then Some (hd vs) else None)
           | _ \<Rightarrow> None)
        in case loss_opt of
             None \<Rightarrow> Inr None
           | Some loss \<Rightarrow>
               (case (case loss of PTensor xs \<Rightarrow> Inr xs | _ \<Rightarrow> Tensor_init loss) of
                  Inl e \<Rightarrow> Inl e
                | Inr t \<Rightarrow> Inr (Some [np_mean t])))"

section \<open>StateMonitor: state, effects and external services\<close>

text \<open>
  \<^verbatim>\<open>self.model\<close>: the callback only asks the model for the parameters of its train network
  and of the network inside it, and lets it evaluate.
\<close>

record model =
  model_train_network_parameters :: "string list"
  model_train_network_network_parameters :: "string list"

text \<open>
  The attributes of a \<^verbatim>\<open>StateMonitor\<close>.  An attribute that only some paths of
  \<^verbatim>\<open>__init__\<close> and \<^verbatim>\<open>__enter__\<close> create is optional (or a flag saying that it exists).
  \<open>rank_id\<close> is never \<^verbatim>\<open>None\<close> after \<^verbatim>\<open>__init__\<close>, so the test
  \<^verbatim>\<open>self.rank_id in [0, None]\<close> is the test \<open>rank_id = 0\<close>.  The clock readings
  (\<^verbatim>\<open>start\<close>, \<^verbatim>\<open>epoch_start\<close>) are left out.
\<close>

record StateMonitor =
  sm_model :: model
  dataset_val :: "nat option"
  val_start_epoch :: int
  save_best_ckpt :: bool
  metric_name :: "string list"
  best_res :: real
  val_interval :: int
  summary_dir :: string
  rank_id :: int
  device_num :: int
  log_interval :: int
  model_name :: string
  ckpt_dir :: string
  ckpt_save_interval :: int
  last_epoch :: int
  best_epoch :: int
  keep_checkpoint_max :: int
  ckpt_save_policy :: "string option"
  ckpoint_filelist :: "(string \<times> real) list"
  need_flush_from_cache :: bool
  dataset_sink_mode :: bool
  log_txt_fp :: "string option"
  best_ckpt_path :: "string option"
  all_reduce :: bool
  ema :: bool
  online_params :: "string list option"
  swap_params :: "real list list"
  summary_record :: bool

text \<open>What a call does to the outside world, in the order in which it happens.\<close>

datatype saved = TrainNetwork | Optimizer nat

datatype event =
    Makedirs string
  | WriteText string string
  | ConstructAllReduce
  | Eval
  | PrintValidation "string list" "real list"
  | SaveCheckpoint saved string
  | PrintNewBest real
  | SummaryAddValue string "real list option"
  | FlushFromCache string
  | ManagerSaveCkpoint int real string
  | PrintTopK "(string \<times> real) list"
  | PrintSaving string
  | PrintEpochTime
  | AppendResult string int real "real list"
  | SummaryRecordStep int

text \<open>
  The state the training callbacks work on: the monitor, the values of the network
  parameters (by parameter name) and the effects so far.
\<close>

record world =
  monitor :: StateMonitor
  params :: "string \<Rightarrow> real list"
  trace :: "event list"

text \<open>
  The services of the framework at one call: \<^verbatim>\<open>model.eval\<close>, which reads the parameter
  values, may change them and returns the metrics by name; and the metric vectors the
  other devices contribute to the all-reduce.  An evaluation that raises inside the
  framework is not represented.
\<close>

record env =
  model_eval :: "(string \<Rightarrow> real list) \<Rightarrow> (string \<rightharpoonup> real) \<times> (string \<Rightarrow> real list)"
  peer_res :: "real list list"

definition emit :: "event list \<Rightarrow> world \<Rightarrow> world" where
  "emit es w = w\<lparr>trace := trace w @ es\<rparr>"

section \<open>StateMonitor.__init__ and __enter__\<close>

record StateMonitor_args =
  arg_model :: model
  arg_summary_dir :: string
  arg_dataset_val :: "nat option"
  arg_val_interval :: int
  arg_val_start_epoch :: int
  arg_save_best_ckpt :: bool
  arg_ckpt_dir :: string
  arg_ckpt_save_interval :: int
  arg_best_ckpt_name :: string
  arg_metric_name :: "string list"
  arg_rank_id :: "int option"
  arg_device_num :: "int option"
  arg_log_interval :: int
  arg_model_name :: string
  arg_last_epoch :: int
  arg_keep_checkpoint_max :: int
  arg_ckpt_save_policy :: "string option"
  arg_ema :: bool
  arg_dataset_sink_mode :: bool

definition default_args :: "model \<Rightarrow> StateMonitor_args" where
  "default_args m =
     \<lparr>arg_model = m, arg_summary_dir = ''./'', arg_dataset_val = None, arg_val_interval = 1,
      arg_val_start_epoch = 1, arg_save_best_ckpt = True, arg_ckpt_dir = ''./'',
      arg_ckpt_save_interval = 1, arg_best_ckpt_name = ''best.ckpt'',
      arg_metric_name = [''accuracy''], arg_rank_id = None, arg_device_num = None,
      arg_log_interval = 100, arg_model_name = [], arg_last_epoch = 0,
      arg_keep_checkpoint_max = 10, arg_ckpt_save_policy = None, arg_ema = False,
      arg_dataset_sink_mode = True\<rparr>"

definition name_dict :: "string \<rightharpoonup> string" where
  "name_dict = [''Top_1_Accuracy'' \<mapsto> ''ValAcc@1'', ''Top_5_Accuracy'' \<mapsto> ''ValAcc@5'']"

definition result_log_header :: "string list \<Rightarrow> string" where
  "result_log_header names =
     ''Epoch'' @ [CHR 0x09] @ ''TrainLoss'' @ [CHR 0x09]
     @ concat (map (\<lambda>n. (case name_dict n of Some v \<Rightarrow> v | None \<Rightarrow> n) @ [CHR 0x09]) names)
     @ ''Time'' @ [CHR 0x0A]"

text \<open>
  \<^verbatim>\<open>__init__\<close>, given whether \<^verbatim>\<open>ckpt_dir\<close> exists and the current parameter values (the
  swap buffer is cloned from the online parameters, filled with zeros).  With a rank but
  no device number, \<^verbatim>\<open>self.device_num > 1\<close> compares \<^verbatim>\<open>None\<close> with a number and raises.
\<close>

definition StateMonitor_init ::
  "StateMonitor_args \<Rightarrow> bool \<Rightarrow> (string \<Rightarrow> real list) \<Rightarrow> (error + StateMonitor) \<times> event list" where
  "StateMonitor_init a isdir ps =
     (let rank = (case arg_rank_id a of Some r \<Rightarrow> r | None \<Rightarrow> 0);
          dn = (if arg_rank_id a \<noteq> None then arg_device_num a else Some 1);
          es = (if rank = 0
                then (if \<not> isdir then [Makedirs (arg_ckpt_dir a)] else [])
                     @ [WriteText (path_join (arg_ckpt_dir a) ''result.log'')
                          (result_log_header (arg_metric_name a))]
                else [])
      in case dn of
           None \<Rightarrow> (Inl TypeError, es)
         | Some d \<Rightarrow>
             (Inr \<lparr>sm_model = arg_model a,
                   dataset_val = arg_dataset_val a,
                   val_start_epoch = arg_val_start_epoch a,
                   save_best_ckpt = arg_save_best_ckpt a,
                   metric_name = arg_metric_name a,
                   best_res = 0,
                   val_interval = arg_val_interval a,
                   summary_dir = arg_summary_dir a,
                   rank_id = rank,
                   device_num = d,
                   log_interval = arg_log_interval a,
                   model_name = arg_model_name a,
                   ckpt_dir = arg_ckpt_dir a,
                   ckpt_save_interval = arg_ckpt_save_interval a,
                   last_epoch = arg_last_epoch a,
                   best_epoch = - 1,
                   keep_checkpoint_max = arg_keep_checkpoint_max a,
                   ckpt_save_policy = arg_ckpt_save_policy a,
                   ckpoint_filelist = [],
                   need_flush_from_cache = True,
                   dataset_sink_mode = arg_dataset_sink_mode a,
                   log_txt_fp = (if rank = 0
                                 then Some (path_join (arg_ckpt_dir a) ''result.log'') else None),
                   best_ckpt_path = (if rank = 0
                                     then Some (path_join (arg_ckpt_dir a) (arg_best_ckpt_name a))
                                     else None),
                   all_reduce = (d > 1),
                   ema = arg_ema a,
                   online_params = (if arg_ema a
                                    then Some (model_train_network_parameters (arg_model a))
                                    else None),
                   swap_params = (if arg_ema a
                                  then map (\<lambda>n. replicate (length (ps n)) 0)
                                         (model_train_network_parameters (arg_model a))
                                  else []),
                   summary_record = False\<rparr>,
              es @ (if d > 1 then [ConstructAllReduce] else [])))"

definition StateMonitor_enter :: "StateMonitor \<Rightarrow> StateMonitor" where
  "StateMonitor_enter m = m\<lparr>summary_record := True\<rparr>"

section \<open>StateMonitor.apply_eval\<close>

text \<open>
  \<^verbatim>\<open>self.map(ops.assign, targets, sources)\<close>.  The swap buffer holds values; the online
  parameters are the network's own parameters, named in \<open>online_params\<close>.
\<close>

definition assign_swap :: "string list \<Rightarrow> world \<Rightarrow> world" where
  "assign_swap online w = w\<lparr>monitor := (monitor w)\<lparr>swap_params := map (params w) online\<rparr>\<rparr>"

definition assign_online :: "string list \<Rightarrow> world \<Rightarrow> world" where
  "assign_online online w =
     w\<lparr>params := fold (\<lambda>(n, v) st. st(n := v)) (zip online (swap_params (monitor w))) (params w)\<rparr>"

text \<open>
  The loop that fills \<^verbatim>\<open>ema_dict\<close>.  \<^verbatim>\<open>param.data\<close> is the parameter itself, so the
  dictionary maps the new name to the parameter it came from.  A name that starts with
  \<^verbatim>\<open>ema\<close> and has no \<^verbatim>\<open>ema.\<close> in it makes \<^verbatim>\<open>split("ema.")[1]\<close> raise.
\<close>

fun build_ema_dict :: "string list \<Rightarrow> (string \<rightharpoonup> string) \<Rightarrow> error + (string \<rightharpoonup> string)" where
  "build_ema_dict [] d = Inr d"
| "build_ema_dict (n # ns) d =
     (if startswith n ''ema''
      then (case py_split n ''ema.'' of
              Inl e \<Rightarrow> Inl e
            | Inr pieces \<Rightarrow>
                if 1 < length pieces then build_ema_dict ns (d(pieces ! 1 \<mapsto> n))
                else Inl IndexError)
      else build_ema_dict ns d)"

text \<open>
  \<^verbatim>\<open>load_param_into_net(net, ema_dict)\<close>: every parameter of the net whose name is a key
  takes the value of the parameter stored under that key.
\<close>

definition load_param_into_net ::
  "string list \<Rightarrow> (string \<rightharpoonup> string) \<Rightarrow> (string \<Rightarrow> real list) \<Rightarrow> (string \<Rightarrow> real list)" where
  "load_param_into_net net d st =
     fold (\<lambda>t st'. (case d t of Some src \<Rightarrow> st'(t := st' src) | None \<Rightarrow> st')) net st"

definition run_eval :: "env \<Rightarrow> world \<Rightarrow> (string \<rightharpoonup> real) \<times> world" where
  "run_eval ev w =
     (let (res, st) = model_eval ev (params w) in (res, emit [Eval] (w\<lparr>params := st\<rparr>)))"

definition apply_eval :: "env \<Rightarrow> cb_params \<Rightarrow> world \<Rightarrow> (error + (string \<rightharpoonup> real)) \<times> world" where
  "apply_eval ev cb w =
     (if ema (monitor w) then
        (case online_params (monitor w) of
           None \<Rightarrow> (Inl AttributeError, w)
         | Some online \<Rightarrow>
             if length (swap_params (monitor w)) \<noteq> length online then (Inl ValueError, w)
             else
               let w1 = assign_swap online w;
                   net = (if dataset_sink_mode (monitor w1)
                          then train_network_network_parameters cb
                          else train_network_parameters cb)
               in case build_ema_dict net Map.empty of
                    Inl e \<Rightarrow> (Inl e, w1)
                  | Inr ema_dict \<Rightarrow>
                      let w2 = w1\<lparr>params := load_param_into_net
                                   (model_train_network_network_parameters (sm_model (monitor w1)))
                                   ema_dict (params w1)\<rparr>;
                          (res, w3) = run_eval ev w2
                      in (Inr res, assign_online online w3))
      else (let (res, w1) = run_eval ev w in (Inr res, w1)))"

section \<open>The collaborators that are not among the sources\<close>

text \<open>
  Modelled from the spec: \<^verbatim>\<open>AllReduceSum\<close> of \<^verbatim>\<open>reduce_manager.py\<close>, which is not among the
  sources.  The spec calls it the multi-device reduction of the metric: the element-wise
  sum of the vectors of all devices, here the local vector and those of the peers.
\<close>

definition all_reduce_sum :: "real list \<Rightarrow> real list list \<Rightarrow> real list" where
  "all_reduce_sum local peers =
     map (\<lambda>i. local ! i + sum_list (map (\<lambda>p. p ! i) peers)) [0..<length local]"

text \<open>
  Modelled from the spec: \<^verbatim>\<open>CheckpointManager.save_ckpoint\<close> of \<^verbatim>\<open>checkpoint_manager.py\<close>,
  which is not among the sources.  The spec describes it as persisting checkpoints with a
  retention policy (best/top-k): the new file joins the list of kept files, and no more
  than \<open>num_ckpt\<close> files are retained: those of the highest metric under the policy
  \<^verbatim>\<open>top_k\<close>, the latest ones otherwise.
\<close>

definition save_ckpoint ::
  "string option \<Rightarrow> (string \<times> real) list \<Rightarrow> int \<Rightarrow> real \<Rightarrow> string \<Rightarrow> (string \<times> real) list" where
  "save_ckpoint policy files num_ckpt metric save_path =
     (let fl = files @ [(save_path, metric)] in
      if policy = Some ''top_k''
      then take (nat num_ckpt) (sort_key (\<lambda>(p, acc). - acc) fl)
      else drop (length fl - nat num_ckpt) fl)"

section \<open>StateMonitor.on_train_epoch_end\<close>

definition select_optimizer :: "StateMonitor \<Rightarrow> cb_params \<Rightarrow> optimizer" where
  "select_optimizer m cb =
     (case cb_optimizer cb of
        Some opt \<Rightarrow> opt
      | None \<Rightarrow>
          if dataset_sink_mode m then train_network_network_optimizer cb
          else train_network_optimizer cb)"

text \<open>
  The loop \<^verbatim>\<open>res[i] = mind_res[self.metric_name[i]] * 100\<close>; a metric the evaluation did
  not return raises \<^verbatim>\<open>KeyError\<close>.
\<close>

fun fill_res :: "(string \<rightharpoonup> real) \<Rightarrow> string list \<Rightarrow> error + real list" where
  "fill_res mind_res [] = Inr []"
| "fill_res mind_res (n # ns) =
     (case mind_res n of
        None \<Rightarrow> Inl KeyError
      | Some v \<Rightarrow>
          (case fill_res mind_res ns of Inl e \<Rightarrow> Inl e | Inr vs \<Rightarrow> Inr (v * 100 # vs)))"

text \<open>Lines 194 to 196: the reduction over the devices.\<close>

definition reduce_res :: "env \<Rightarrow> StateMonitor \<Rightarrow> real list \<Rightarrow> error + real list" where
  "reduce_res ev m res =
     (if device_num m > 1
      then (if all_reduce m
            then Inr (map (\<lambda>x. x / real_of_int (device_num m)) (all_reduce_sum res (peer_res ev)))
            else Inl AttributeError)
      else Inr res)"

text \<open>
  Lines 198 to 215, on rank 0: print the metrics, keep the best result and save the best
  checkpoint, add the metrics to the summary.
\<close>

definition record_validation :: "int \<Rightarrow> real list \<Rightarrow> world \<Rightarrow> (error + unit) \<times> world" where
  "record_validation cur_epoch res w =
     (let m = monitor w;
          w1 = emit [PrintValidation (metric_name m) res] w
      in if res = [] then (Inl IndexError, w1)
         else
           let summary = map (\<lambda>(n, v). SummaryAddValue (''val_'' @ n) (Some [v]))
                             (zip (metric_name m) res)
           in if hd res > best_res m
              then
                let w2 = w1\<lparr>monitor := m\<lparr>best_res := hd res, best_epoch := cur_epoch\<rparr>\<rparr>
                in if save_best_ckpt m \<and> rank_id m = 0
                   then (case best_ckpt_path m of
                           None \<Rightarrow> (Inl AttributeError, w2)
                         | Some path \<Rightarrow>
                             (Inr (), emit ([SaveCheckpoint TrainNetwork path, PrintNewBest (hd res)]
                                            @ summary) w2))
                   else (Inr (), emit summary w2)
              else (Inr (), emit summary w1))"

text \<open>Lines 186 to 215: validation while training.  The result is the vector \<^verbatim>\<open>res\<close>.\<close>

definition validation :: "env \<Rightarrow> cb_params \<Rightarrow> world \<Rightarrow> (error + real list) \<times> world" where
  "validation ev cb w =
     (let m = monitor w;
          cur_epoch = cur_epoch_num cb + last_epoch m;
          zeros = replicate (length (metric_name m)) 0
      in if dataset_val m = None then (Inr zeros, w)
         else if \<not> cur_epoch \<ge> val_start_epoch m then (Inr zeros, w)
         else
           (case py_mod (cur_epoch - val_start_epoch m) (val_interval m) of
              Inl e \<Rightarrow> (Inl e, w)
            | Inr r \<Rightarrow>
                if r \<noteq> 0 then (Inr zeros, w)
                else
                  (case apply_eval ev cb w of
                     (Inl e, w1) \<Rightarrow> (Inl e, w1)
                   | (Inr mind_res, w1) \<Rightarrow>
                       (case fill_res mind_res (metric_name m) of
                          Inl e \<Rightarrow> (Inl e, w1)
                        | Inr local \<Rightarrow>
                            (case reduce_res ev (monitor w1) local of
                               Inl e \<Rightarrow> (Inl e, w1)
                             | Inr res \<Rightarrow>
                                 if rank_id (monitor w1) = 0
                                 then (case record_validation cur_epoch res w1 of
                                         (Inl e, w2) \<Rightarrow> (Inl e, w2)
                                       | (Inr u, w2) \<Rightarrow> (Inr res, w2))
                                 else (Inr res, w1))))))"

text \<open>\<^verbatim>\<open>_flush_from_cache\<close>.\<close>

definition flush_from_cache :: "cb_params \<Rightarrow> world \<Rightarrow> world" where
  "flush_from_cache cb w =
     (let cached = filter (cache_enable cb) (train_network_parameters cb);
          w1 = emit (map FlushFromCache cached) w
      in if cached = [] then w1\<lparr>monitor := (monitor w1)\<lparr>need_flush_from_cache := False\<rparr>\<rparr>
         else w1)"

text \<open>
  Lines 219 to 241, on rank 0: the optimizer state and the numbered checkpoint.  The
  remainder is computed before the comparison with the last epoch, so an interval of 0
  raises in any case; \<^verbatim>\<open>res[0]\<close> is evaluated after the optimizer has been saved.
\<close>

definition save_epoch :: "cb_params \<Rightarrow> real list \<Rightarrow> world \<Rightarrow> (error + unit) \<times> world" where
  "save_epoch cb res w =
     (let m = monitor w;
          cur_epoch = cur_epoch_num cb + last_epoch m;
          cur_step_in_epoch = batch_num cb
      in case py_mod cur_epoch (ckpt_save_interval m) of
           Inl e \<Rightarrow> (Inl e, w)
         | Inr r \<Rightarrow>
             if r = 0 \<or> cur_epoch = epoch_num cb
             then
               let w1 = (if need_flush_from_cache m then flush_from_cache cb w else w);
                   m1 = monitor w1;
                   optim_save_path = path_join (ckpt_dir m1) (''optim_'' @ model_name m1 @ ''.ckpt'');
                   w2 = emit [SaveCheckpoint (Optimizer (optimizer_id (select_optimizer m1 cb)))
                                optim_save_path] w1;
                   cur_ckpoint_file = model_name m1 @ ''-'' @ str_int cur_epoch @ ''_''
                                      @ str_int cur_step_in_epoch @ ''.ckpt'';
                   ckpt_save_path = path_join (ckpt_dir m1) cur_ckpoint_file
               in if res = [] then (Inl IndexError, w2)
                  else
                    let fl = save_ckpoint (ckpt_save_policy m1) (ckpoint_filelist m1)
                               (keep_checkpoint_max m1) (hd res) ckpt_save_path;
                        w3 = emit [ManagerSaveCkpoint (keep_checkpoint_max m1) (hd res) ckpt_save_path]
                               (w2\<lparr>monitor := m1\<lparr>ckpoint_filelist := fl\<rparr>\<rparr>)
                    in if ckpt_save_policy m1 = Some ''top_k''
                       then (Inr (), emit [PrintTopK fl] w3)
                       else (Inr (), emit [PrintSaving ckpt_save_path] w3)
             else (Inr (), w))"

text \<open>Lines 218 to 252: what rank 0 saves and logs at the end of the epoch.\<close>

definition log_epoch ::
  "cb_params \<Rightarrow> real list option \<Rightarrow> real list \<Rightarrow> world \<Rightarrow> (error + unit) \<times> world" where
  "log_epoch cb loss res w =
     (if rank_id (monitor w) = 0
      then (case save_epoch cb res w of
              (Inl e, w1) \<Rightarrow> (Inl e, w1)
            | (Inr u, w1) \<Rightarrow>
                let w2 = emit [PrintEpochTime] w1;
                    cur_epoch = cur_epoch_num cb + last_epoch (monitor w2)
                in (case loss of
                      None \<Rightarrow> (Inl AttributeError, w2)
                    | Some l \<Rightarrow>
                        (case log_txt_fp (monitor w2) of
                           None \<Rightarrow> (Inl AttributeError, w2)
                         | Some fp \<Rightarrow> (Inr (), emit [AppendResult fp cur_epoch (hd l) res] w2))))
      else (Inr (), w))"

text \<open>
  \<^verbatim>\<open>on_train_epoch_end\<close>.  The method returns nothing; the model returns the final value of
  its local variable \<^verbatim>\<open>res\<close>, the metric vector of the epoch.
\<close>

definition on_train_epoch_end :: "env \<Rightarrow> cb_params \<Rightarrow> world \<Rightarrow> (error + real list) \<times> world" where
  "on_train_epoch_end ev cb w =
     (let opt = select_optimizer (monitor w) cb;
          step = global_step opt
      in case get_loss cb of
           Inl e \<Rightarrow> (Inl e, w)
         | Inr loss \<Rightarrow>
             if \<not> summary_record (monitor w) then (Inl AttributeError, w)
             else
               let w1 = emit [SummaryAddValue (''train_loss_'' @ str_int (rank_id (monitor w))) loss] w
               in (case validation ev cb w1 of
                     (Inl e, w2) \<Rightarrow> (Inl e, w2)
                   | (Inr res, w2) \<Rightarrow>
                       (case log_epoch cb loss res w2 of
                          (Inl e, w3) \<Rightarrow> (Inl e, w3)
                        | (Inr u, w3) \<Rightarrow> (Inr res, emit [SummaryRecordStep step] w3))))"

text \<open>
  A training run calls the hook once per epoch; an exception ends the run.  The result
  lists, for every epoch that was completed, its number and its metric vector.
\<close>

fun run_epochs ::
  "(env \<times> cb_params) list \<Rightarrow> world \<Rightarrow> (error + (int \<times> real list) list) \<times> world" where
  "run_epochs [] w = (Inr [], w)"
| "run_epochs ((ev, cb) # rest) w =
     (case on_train_epoch_end ev cb w of
        (Inl e, w1) \<Rightarrow> (Inl e, w1)
      | (Inr res, w1) \<Rightarrow>
          (case run_epochs rest w1 of
             (Inl e, w2) \<Rightarrow> (Inl e, w2)
           | (Inr obs, w2) \<Rightarrow>
               (Inr ((cur_epoch_num cb + last_epoch (monitor w), res) # obs), w2)))"

section \<open>StateMonitor.remove_oldest_ckpoint_file\<close>

text \<open>
  Attribute lookup on a \<^verbatim>\<open>StateMonitor\<close> object: the attributes its own methods have
  assigned, then the names defined by the class and by its base class \<^verbatim>\<open>Callback\<close> (the
  hooks of the framework's callback interface).
\<close>

definition instance_attributes :: "StateMonitor \<Rightarrow> string list" where
  "instance_attributes m =
     [''model'', ''dataset_val'', ''val_start_epoch'', ''save_best_ckpt'', ''metric_name'',
      ''best_res'', ''val_interval'', ''summary_dir'', ''rank_id'', ''device_num'',
      ''log_interval'', ''model_name'', ''ckpt_dir'', ''ckpt_save_interval'', ''last_epoch'',
      ''best_epoch'', ''keep_checkpoint_max'', ''ckpt_save_policy'', ''_manager'',
      ''_need_flush_from_cache'', ''dataset_sink_mode'', ''start'', ''epoch_start'', ''map'',
      ''ema'']
     @ (if log_txt_fp m \<noteq> None then [''log_txt_fp''] else [])
     @ (if best_ckpt_path m \<noteq> None then [''best_ckpt_path''] else [])
     @ (if all_reduce m then [''all_reduce''] else [])
     @ (if online_params m \<noteq> None then [''online_params'', ''swap_params''] else [])
     @ (if summary_record m then [''summary_record''] else [])"

definition class_attributes :: "string list" where
  "class_attributes =
     [''__init__'', ''__enter__'', ''__exit__'', ''apply_eval'', ''on_train_step_end'',
      ''on_train_epoch_end'', ''on_train_end'', ''_get_loss'', ''_flush_from_cache'',
      ''remove_oldest_ckpoint_file'',
      ''begin'', ''end'', ''epoch_begin'', ''epoch_end'', ''step_begin'', ''step_end'',
      ''on_train_begin'', ''on_train_epoch_begin'', ''on_train_step_begin'',
      ''on_eval_begin'', ''on_eval_end'', ''on_eval_epoch_begin'', ''on_eval_epoch_end'',
      ''on_eval_step_begin'', ''on_eval_step_end'']"

definition has_attribute :: "StateMonitor \<Rightarrow> string \<Rightarrow> bool" where
  "has_attribute m name = (name \<in> set (instance_attributes m @ class_attributes))"

text \<open>
  The method reads \<^verbatim>\<open>self._ckpoint_filelist\<close> first and looks \<^verbatim>\<open>self.remove_ckpoint_file\<close>
  up afterwards; a lookup that finds nothing raises.  What a successful call would
  remove is not modelled.
\<close>

definition remove_oldest_ckpoint_file :: "world \<Rightarrow> (error + unit) \<times> world" where
  "remove_oldest_ckpoint_file w =
     (if \<not> has_attribute (monitor w) ''_ckpoint_filelist'' then (Inl AttributeError, w)
      else if \<not> has_attribute (monitor w) ''remove_ckpoint_file'' then (Inl AttributeError, w)
      else (Inr (), w))"

section \<open>Example inputs\<close>

text \<open>
  A model with one weight and its moving average, a monitor built by \<^verbatim>\<open>__init__\<close> on
  rank 0 and entered as a context manager, and the parameters of an epoch end.
\<close>

definition example_model :: model where
  "example_model =
     \<lparr>model_train_network_parameters = [''w'', ''ema.w''],
      model_train_network_network_parameters = [''w'']\<rparr>"

definition example_params :: "string \<Rightarrow> real list" where
  "example_params n = (if n = ''w'' then [1] else if n = ''ema.w'' then [2] else [])"

definition example_env :: env where
  "example_env =
     \<lparr>model_eval = (\<lambda>st. ([''accuracy'' \<mapsto> hd (st ''w'') / 4], st)), peer_res = [[30]]\<rparr>"

definition example_args :: StateMonitor_args where
  "example_args =
     (default_args example_model)
       \<lparr>arg_dataset_val := Some 0, arg_ckpt_dir := ''ckpt'', arg_rank_id := Some 0,
        arg_device_num := Some 1, arg_model_name := ''net'', arg_ema := True\<rparr>"

definition example_monitor :: StateMonitor where
  "example_monitor = StateMonitor_enter (projr (fst (StateMonitor_init example_args True example_params)))"

definition example_world :: world where
  "example_world = \<lparr>monitor = example_monitor, params = example_params, trace = []\<rparr>"

definition example_cb :: cb_params where
  "example_cb =
     \<lparr>cur_epoch_num = 2, epoch_num = 10, batch_num = 50, cur_step_num = 200,
      net_outputs = PTuple [PTensor [1, 2], PInt 7],
      cb_optimizer = None,
      train_network_optimizer = \<lparr>optimizer_id = 1, global_step = 100\<rparr>,
      train_network_network_optimizer = \<lparr>optimizer_id = 2, global_step = 100\<rparr>,
      train_network_parameters = [''w'', ''ema.w''],
      train_network_network_parameters = [''w'', ''ema.w''],
      cache_enable = (\<lambda>n. False)\<rparr>"

definition example_eval_world :: eval_world where
  "example_eval_world =
     \<lparr>val_callback = ValCallback_init 100, val_cb_params = example_cb, stdout = []\<rparr>"

text \<open>The same training without moving averages, on rank 0 of two devices.\<close>

definition example_args2 :: StateMonitor_args where
  "example_args2 =
     (default_args example_model)
       \<lparr>arg_dataset_val := Some 0, arg_ckpt_dir := ''ckpt'', arg_rank_id := Some 0,
        arg_device_num := Some 2, arg_model_name := ''net''\<rparr>"

definition example_world2 :: world where
  "example_world2 =
     \<lparr>monitor = StateMonitor_enter (projr (fst (StateMonitor_init example_args2 True example_params))),
      params = example_params, trace = []\<rparr>"

section \<open>Shared lemmas\<close>

lemma example_monitor_eq:
  "example_monitor =
     \<lparr>sm_model = example_model, dataset_val = Some 0, val_start_epoch = 1, save_best_ckpt = True,
      metric_name = [''accuracy''], best_res = 0, val_interval = 1, summary_dir = ''./'',
      rank_id = 0, device_num = 1, log_interval = 100, model_name = ''net'', ckpt_dir = ''ckpt'',
      ckpt_save_interval = 1, last_epoch = 0, best_epoch = - 1, keep_checkpoint_max = 10,
      ckpt_save_policy = None, ckpoint_filelist = [], need_flush_from_cache = True,
      dataset_sink_mode = True, log_txt_fp = Some ''ckpt/result.log'',
      best_ckpt_path = Some ''ckpt/best.ckpt'', all_reduce = False, ema = True,
      online_params = Some [''w'', ''ema.w''], swap_params = [[0], [0]], summary_record = True\<rparr>"
  by (simp add: example_monitor_def StateMonitor_init_def StateMonitor_enter_def example_args_def
      default_args_def example_model_def example_params_def path_join_def startswith_def Let_def)









section \<open>The parameter swap of apply_eval\<close>








section \<open>The evaluation-step logger\<close>

text \<open>
  Claim C7.  \<^verbatim>\<open>ValCallback.on_eval_step_end\<close> prints the line
  \<^verbatim>\<open><cur_step_num>/<batch_num>\<close> exactly when \<open>cur_step_num\<close> is a multiple of the
  (non-zero) \<open>log_step_interval\<close>, and changes nothing else: neither the callback nor
  the callback parameters.  With an interval of 0 the remainder raises
  \<^verbatim>\<open>ZeroDivisionError\<close> and nothing is printed.
\<close>

theorem on_eval_step_end_prints:
  "on_eval_step_end w =
     (if log_step_interval (val_callback w) = 0 then (Inl ZeroDivisionError, w)
      else if log_step_interval (val_callback w) dvd cur_step_num (val_cb_params w)
      then (Inr (), w\<lparr>stdout := stdout w @
              [str_int (cur_step_num (val_cb_params w)) @ ''/''
               @ str_int (batch_num (val_cb_params w))]\<rparr>)
      else (Inr (), w))"
  by (simp add: on_eval_step_end_def py_mod_def Let_def mod_eq_0_iff_dvd)

theorem on_eval_step_end_prints_witness:
  "on_eval_step_end example_eval_world = (Inr (), example_eval_world\<lparr>stdout := [''200/50'']\<rparr>)"
  using on_eval_step_end_prints [of example_eval_world]
  by (simp add: example_eval_world_def ValCallback_init_def example_cb_def str_int_def
      str_nat.simps digit_def)

section \<open>The loss handed to the summary\<close>



section \<open>The method that removes the oldest checkpoint\<close>

text \<open>
  Claim C9.  Every call of \<^verbatim>\<open>remove_oldest_ckpoint_file\<close> raises \<^verbatim>\<open>AttributeError\<close> and
  changes nothing: no method of \<^verbatim>\<open>StateMonitor\<close> assigns \<^verbatim>\<open>self._ckpoint_filelist\<close>, and
  the class has no \<^verbatim>\<open>remove_ckpoint_file\<close>.
\<close>

theorem remove_oldest_ckpoint_file_raises:
  "remove_oldest_ckpoint_file w = (Inl AttributeError, w)
   \<and> \<not> has_attribute (monitor w) ''_ckpoint_filelist''
   \<and> \<not> has_attribute (monitor w) ''remove_ckpoint_file''"
  by (simp add: remove_oldest_ckpoint_file_def has_attribute_def instance_attributes_def
      class_attributes_def)

theorem remove_oldest_ckpoint_file_raises_witness:
  "remove_oldest_ckpoint_file example_world = (Inl AttributeError, example_world)"
  using remove_oldest_ckpoint_file_raises [of example_world] by simp

section \<open>The phases of on_train_epoch_end\<close>

lemma emit_simps [simp]:
  "monitor (emit es w) = monitor w" "params (emit es w) = params w"
  "trace (emit es w) = trace w @ es"
  by (simp_all add: emit_def)

lemma run_eval_params_emit:
  "fst (run_eval ev (emit es w)) = fst (run_eval ev w)"
  by (simp add: run_eval_def split: prod.splits)

lemma apply_eval_trace:
  "apply_eval ev cb w = (r, wa) \<Longrightarrow>
   trace wa = trace w @ (case r of Inr x \<Rightarrow> [Eval] | Inl e \<Rightarrow> [])"
  by (auto simp: apply_eval_def Let_def assign_swap_def assign_online_def run_eval_def emit_def
      split: if_splits option.splits sum.splits prod.splits)

lemma apply_eval_monitor:
  "apply_eval ev cb w = (r, wa) \<Longrightarrow>
   monitor wa = (monitor w)\<lparr>swap_params := swap_params (monitor wa)\<rparr>"
  by (auto simp: apply_eval_def Let_def assign_swap_def assign_online_def run_eval_def emit_def
      split: if_splits option.splits sum.splits prod.splits)

lemma apply_eval_emit:
  "fst (apply_eval ev cb (emit es w)) = fst (apply_eval ev cb w)"
  by (auto simp: apply_eval_def Let_def assign_swap_def assign_online_def run_eval_def emit_def
      split: if_splits option.splits sum.splits prod.splits)


lemma validation_Inr:
  assumes "validation ev cb w = (Inr res, w2)"
  shows "(\<not> (dataset_val (monitor w) \<noteq> None
            \<and> val_start_epoch (monitor w) \<le> cur_epoch_num cb + last_epoch (monitor w)
            \<and> val_interval (monitor w) dvd
                cur_epoch_num cb + last_epoch (monitor w) - val_start_epoch (monitor w))
          \<and> res = replicate (length (metric_name (monitor w))) 0 \<and> w2 = w)
       \<or> (dataset_val (monitor w) \<noteq> None
          \<and> val_start_epoch (monitor w) \<le> cur_epoch_num cb + last_epoch (monitor w)
          \<and> val_interval (monitor w) \<noteq> 0
          \<and> val_interval (monitor w) dvd
                cur_epoch_num cb + last_epoch (monitor w) - val_start_epoch (monitor w)
          \<and> (\<exists>mind_res wa local.
                apply_eval ev cb w = (Inr mind_res, wa)
              \<and> fill_res mind_res (metric_name (monitor w)) = Inr local
              \<and> reduce_res ev (monitor wa) local = Inr res
              \<and> (if rank_id (monitor wa) = 0
                  then record_validation (cur_epoch_num cb + last_epoch (monitor w)) res wa = (Inr (), w2)
                  else w2 = wa)))"
  using assms
  by (auto simp: validation_def Let_def py_mod_def mod_eq_0_iff_dvd
      split: if_splits sum.splits prod.splits)

lemma record_validation_Inr:
  assumes "record_validation cur res w = (Inr (), w2)"
  shows "res \<noteq> []"
    and "monitor w2 = (if hd res > best_res (monitor w)
                       then (monitor w)\<lparr>best_res := hd res, best_epoch := cur\<rparr> else monitor w)"
    and "params w2 = params w"
    and "trace w2 = trace w @ PrintValidation (metric_name (monitor w)) res
           # (if hd res > best_res (monitor w) \<and> save_best_ckpt (monitor w) \<and> rank_id (monitor w) = 0
              then [SaveCheckpoint TrainNetwork (the (best_ckpt_path (monitor w))), PrintNewBest (hd res)]
              else [])
           @ map (\<lambda>(n, v). SummaryAddValue (''val_'' @ n) (Some [v])) (zip (metric_name (monitor w)) res)"
  using assms
  by (auto simp: record_validation_def Let_def emit_def split: if_splits option.splits)

lemma save_epoch_Inr:
  assumes "save_epoch cb res w = (Inr (), w1)"
  shows "ckpt_save_interval (monitor w) \<noteq> 0"
    and "\<not> (ckpt_save_interval (monitor w) dvd cur_epoch_num cb + last_epoch (monitor w)
            \<or> cur_epoch_num cb + last_epoch (monitor w) = epoch_num cb) \<Longrightarrow> w1 = w"
    and "ckpt_save_interval (monitor w) dvd cur_epoch_num cb + last_epoch (monitor w)
            \<or> cur_epoch_num cb + last_epoch (monitor w) = epoch_num cb \<Longrightarrow>
         res \<noteq> [] \<and> params w1 = params w
         \<and> trace w1 = trace w
             @ map FlushFromCache (if need_flush_from_cache (monitor w)
                                   then filter (cache_enable cb) (train_network_parameters cb) else [])
             @ [SaveCheckpoint (Optimizer (optimizer_id (select_optimizer (monitor w) cb)))
                  (path_join (ckpt_dir (monitor w)) (''optim_'' @ model_name (monitor w) @ ''.ckpt'')),
                ManagerSaveCkpoint (keep_checkpoint_max (monitor w)) (hd res)
                  (path_join (ckpt_dir (monitor w))
                     (model_name (monitor w) @ ''-''
                      @ str_int (cur_epoch_num cb + last_epoch (monitor w)) @ ''_''
                      @ str_int (batch_num cb) @ ''.ckpt'')),
                (if ckpt_save_policy (monitor w) = Some ''top_k''
                 then PrintTopK (ckpoint_filelist (monitor w1))
                 else PrintSaving (path_join (ckpt_dir (monitor w))
                     (model_name (monitor w) @ ''-''
                      @ str_int (cur_epoch_num cb + last_epoch (monitor w)) @ ''_''
                      @ str_int (batch_num cb) @ ''.ckpt'')))]
         \<and> monitor w1 = (monitor w)
             \<lparr>ckpoint_filelist := save_ckpoint (ckpt_save_policy (monitor w))
                  (ckpoint_filelist (monitor w)) (keep_checkpoint_max (monitor w)) (hd res)
                  (path_join (ckpt_dir (monitor w))
                     (model_name (monitor w) @ ''-''
                      @ str_int (cur_epoch_num cb + last_epoch (monitor w)) @ ''_''
                      @ str_int (batch_num cb) @ ''.ckpt'')),
              need_flush_from_cache := (need_flush_from_cache (monitor w)
                  \<and> filter (cache_enable cb) (train_network_parameters cb) \<noteq> [])\<rparr>"
  using assms
  by (auto simp: save_epoch_def Let_def py_mod_def mod_eq_0_iff_dvd flush_from_cache_def emit_def
        select_optimizer_def
      split: if_splits sum.splits)

lemma save_epoch_frame:
  "save_epoch cb res w = (r, w1) \<Longrightarrow>
   monitor w1 = (monitor w)\<lparr>ckpoint_filelist := ckpoint_filelist (monitor w1),
                              need_flush_from_cache := need_flush_from_cache (monitor w1)\<rparr>"
  by (auto simp: save_epoch_def Let_def py_mod_def flush_from_cache_def emit_def
      split: if_splits sum.splits)

lemma save_epoch_fields:
  assumes "save_epoch cb res w = (r, w1)"
  shows "last_epoch (monitor w1) = last_epoch (monitor w)"
    and "log_txt_fp (monitor w1) = log_txt_fp (monitor w)"
    and "rank_id (monitor w1) = rank_id (monitor w)"
    and "metric_name (monitor w1) = metric_name (monitor w)"
    and "best_res (monitor w1) = best_res (monitor w)"
    and "best_epoch (monitor w1) = best_epoch (monitor w)"
  using arg_cong [OF save_epoch_frame [OF assms], of last_epoch]
    arg_cong [OF save_epoch_frame [OF assms], of log_txt_fp]
    arg_cong [OF save_epoch_frame [OF assms], of rank_id]
    arg_cong [OF save_epoch_frame [OF assms], of metric_name]
    arg_cong [OF save_epoch_frame [OF assms], of best_res]
    arg_cong [OF save_epoch_frame [OF assms], of best_epoch]
  by simp_all

lemma log_epoch_Inr:
  assumes "log_epoch cb loss res w = (Inr (), w3)"
  shows "rank_id (monitor w) \<noteq> 0 \<Longrightarrow> w3 = w"
    and "rank_id (monitor w) = 0 \<Longrightarrow>
         \<exists>w1 l fp. save_epoch cb res w = (Inr (), w1) \<and> loss = Some l
            \<and> log_txt_fp (monitor w) = Some fp
            \<and> w3 = emit [PrintEpochTime,
                          AppendResult fp (cur_epoch_num cb + last_epoch (monitor w)) (hd l) res] w1"
  using assms
  by (auto simp: log_epoch_def Let_def emit_def save_epoch_fields
      split: if_splits sum.splits prod.splits option.splits)

lemma on_train_epoch_end_Inr:
  assumes "on_train_epoch_end ev cb w = (Inr res, w')"
  shows "\<exists>loss w2 w3.
           get_loss cb = Inr loss \<and> summary_record (monitor w)
         \<and> validation ev cb
              (emit [SummaryAddValue (''train_loss_'' @ str_int (rank_id (monitor w))) loss] w)
             = (Inr res, w2)
         \<and> log_epoch cb loss res w2 = (Inr (), w3)
         \<and> w' = emit [SummaryRecordStep (global_step (select_optimizer (monitor w) cb))] w3"
  using assms
  by (auto simp: on_train_epoch_end_def Let_def split: if_splits sum.splits prod.splits)

lemma apply_eval_fields:
  assumes "apply_eval ev cb w = (r, wa)"
  shows "rank_id (monitor wa) = rank_id (monitor w)"
    and "metric_name (monitor wa) = metric_name (monitor w)"
    and "best_res (monitor wa) = best_res (monitor w)"
    and "best_epoch (monitor wa) = best_epoch (monitor w)"
    and "save_best_ckpt (monitor wa) = save_best_ckpt (monitor w)"
    and "best_ckpt_path (monitor wa) = best_ckpt_path (monitor w)"
    and "device_num (monitor wa) = device_num (monitor w)"
    and "all_reduce (monitor wa) = all_reduce (monitor w)"
  using arg_cong [OF apply_eval_monitor [OF assms], of rank_id]
    arg_cong [OF apply_eval_monitor [OF assms], of metric_name]
    arg_cong [OF apply_eval_monitor [OF assms], of best_res]
    arg_cong [OF apply_eval_monitor [OF assms], of best_epoch]
    arg_cong [OF apply_eval_monitor [OF assms], of save_best_ckpt]
    arg_cong [OF apply_eval_monitor [OF assms], of best_ckpt_path]
    arg_cong [OF apply_eval_monitor [OF assms], of device_num]
    arg_cong [OF apply_eval_monitor [OF assms], of all_reduce]
  by simp_all

lemma monitor_frame_refl:
  "\<exists>b e sp. m = m\<lparr>best_res := b, best_epoch := e, swap_params := sp\<rparr>"
  by (rule exI [of _ "best_res m"], rule exI [of _ "best_epoch m"],
      rule exI [of _ "swap_params m"]) simp

lemma validation_summary:
  assumes "validation ev cb w = (Inr res, w2)"
  defines "m \<equiv> monitor w"
  defines "cur \<equiv> cur_epoch_num cb + last_epoch (monitor w)"
  defines "due \<equiv> dataset_val m \<noteq> None \<and> val_start_epoch m \<le> cur
                  \<and> val_interval m dvd cur - val_start_epoch m"
  shows "\<exists>es. trace w2 = trace w @ es
          \<and> (Eval \<in> set es \<longleftrightarrow> due)
          \<and> (\<forall>x p. SaveCheckpoint x p \<in> set es \<longleftrightarrow>
                 x = TrainNetwork \<and> p = the (best_ckpt_path m) \<and> due \<and> rank_id m = 0
                 \<and> best_res m < hd res \<and> save_best_ckpt m)
          \<and> (\<forall>names r. PrintValidation names r \<in> set es \<longleftrightarrow>
                 due \<and> rank_id m = 0 \<and> names = metric_name m \<and> r = res)
          \<and> (\<forall>n v p. ManagerSaveCkpoint n v p \<notin> set es)
          \<and> (\<forall>fp e l r. AppendResult fp e l r \<notin> set es)"
    and "(\<exists>b e sp. monitor w2 = m\<lparr>best_res := b, best_epoch := e, swap_params := sp\<rparr>)"
    and "(best_res (monitor w2), best_epoch (monitor w2)) =
           (if due \<and> rank_id m = 0 \<and> best_res m < hd res then (hd res, cur)
            else (best_res m, best_epoch m))"
    and "due \<and> rank_id m = 0 \<longrightarrow> res \<noteq> []"
    and "\<not> due \<longrightarrow> res = replicate (length (metric_name m)) 0"
    and "due \<and> rank_id m = 0 \<and> best_res m < hd res \<and> save_best_ckpt m
         \<longrightarrow> best_ckpt_path m \<noteq> None"
proof -
  from validation_Inr [OF assms(1)]
  consider (skip) "\<not> due" "res = replicate (length (metric_name m)) 0" "w2 = w"
    | (run) mind_res wa local where "due" "apply_eval ev cb w = (Inr mind_res, wa)"
        "fill_res mind_res (metric_name m) = Inr local" "reduce_res ev (monitor wa) local = Inr res"
        "if rank_id (monitor wa) = 0 then record_validation cur res wa = (Inr (), w2) else w2 = wa"
    unfolding due_def m_def cur_def by blast
  then have "(\<exists>es. trace w2 = trace w @ es
          \<and> (Eval \<in> set es \<longleftrightarrow> due)
          \<and> (\<forall>x p. SaveCheckpoint x p \<in> set es \<longleftrightarrow>
                 x = TrainNetwork \<and> p = the (best_ckpt_path m) \<and> due \<and> rank_id m = 0
                 \<and> best_res m < hd res \<and> save_best_ckpt m)
          \<and> (\<forall>names r. PrintValidation names r \<in> set es \<longleftrightarrow>
                 due \<and> rank_id m = 0 \<and> names = metric_name m \<and> r = res)
          \<and> (\<forall>n v p. ManagerSaveCkpoint n v p \<notin> set es)
          \<and> (\<forall>fp e l r. AppendResult fp e l r \<notin> set es))
     \<and> (\<exists>b e sp. monitor w2 = m\<lparr>best_res := b, best_epoch := e, swap_params := sp\<rparr>)
     \<and> (best_res (monitor w2), best_epoch (monitor w2)) =
           (if due \<and> rank_id m = 0 \<and> best_res m < hd res then (hd res, cur)
            else (best_res m, best_epoch m))
     \<and> (due \<and> rank_id m = 0 \<longrightarrow> res \<noteq> [])
     \<and> (\<not> due \<longrightarrow> res = replicate (length (metric_name m)) 0)
     \<and> (due \<and> rank_id m = 0 \<and> best_res m < hd res \<and> save_best_ckpt m
         \<longrightarrow> best_ckpt_path m \<noteq> None)"
  proof cases
    case skip
    then show ?thesis using monitor_frame_refl [of m] by (simp add: m_def)
  next
    case run
    note f = apply_eval_fields [OF run(2)]
    have ta: "trace wa = trace w @ [Eval]" using apply_eval_trace [OF run(2)] by simp
    from apply_eval_monitor [OF run(2)] obtain sp where ma: "monitor wa = m\<lparr>swap_params := sp\<rparr>"
      unfolding m_def by blast
    show ?thesis
    proof (cases "rank_id (monitor wa) = 0")
      case False
      with run(5) have "w2 = wa" by simp
      moreover have "\<exists>b e sp. monitor wa = m\<lparr>best_res := b, best_epoch := e, swap_params := sp\<rparr>"
        by (rule exI [of _ "best_res m"], rule exI [of _ "best_epoch m"], rule exI [of _ sp])
           (simp add: ma)
      ultimately show ?thesis using False f ta run(1) by (auto simp: m_def)
    next
      case True
      with run(5) have rv: "record_validation cur res wa = (Inr (), w2)" by simp
      note r = record_validation_Inr [OF rv]
      have m2: "\<exists>b e sp. monitor w2 = m\<lparr>best_res := b, best_epoch := e, swap_params := sp\<rparr>"
        by (rule exI [of _ "best_res (monitor w2)"], rule exI [of _ "best_epoch (monitor w2)"],
            rule exI [of _ sp]) (simp add: r(2) ma)
      have bp: "best_res m < hd res \<and> save_best_ckpt m \<longrightarrow> best_ckpt_path m \<noteq> None"
        using rv True f
        by (auto simp: record_validation_def Let_def m_def split: if_splits option.splits)
      have tr: "trace w2 = trace w @ (Eval # PrintValidation (metric_name m) res
           # (if best_res m < hd res \<and> save_best_ckpt m
              then [SaveCheckpoint TrainNetwork (the (best_ckpt_path m)), PrintNewBest (hd res)]
              else [])
           @ map (\<lambda>(n, v). SummaryAddValue (''val_'' @ n) (Some [v])) (zip (metric_name m) res))"
        using r(4) ta True f by (simp add: m_def)
      have be: "(best_res (monitor w2), best_epoch (monitor w2)) =
           (if best_res m < hd res then (hd res, cur) else (best_res m, best_epoch m))"
        using r(2) f by (simp add: m_def)
      from True f have r0: "rank_id m = 0" by (simp add: m_def)
      show ?thesis
        using tr m2 be r(1) r0 run(1) bp by (auto simp: m_def)
    qed
  qed
  then show "\<exists>es. trace w2 = trace w @ es
          \<and> (Eval \<in> set es \<longleftrightarrow> due)
          \<and> (\<forall>x p. SaveCheckpoint x p \<in> set es \<longleftrightarrow>
                 x = TrainNetwork \<and> p = the (best_ckpt_path m) \<and> due \<and> rank_id m = 0
                 \<and> best_res m < hd res \<and> save_best_ckpt m)
          \<and> (\<forall>names r. PrintValidation names r \<in> set es \<longleftrightarrow>
                 due \<and> rank_id m = 0 \<and> names = metric_name m \<and> r = res)
          \<and> (\<forall>n v p. ManagerSaveCkpoint n v p \<notin> set es)
          \<and> (\<forall>fp e l r. AppendResult fp e l r \<notin> set es)"
    and "(\<exists>b e sp. monitor w2 = m\<lparr>best_res := b, best_epoch := e, swap_params := sp\<rparr>)"
    and "(best_res (monitor w2), best_epoch (monitor w2)) =
           (if due \<and> rank_id m = 0 \<and> best_res m < hd res then (hd res, cur)
            else (best_res m, best_epoch m))"
    and "due \<and> rank_id m = 0 \<longrightarrow> res \<noteq> []"
    and "\<not> due \<longrightarrow> res = replicate (length (metric_name m)) 0"
    and "due \<and> rank_id m = 0 \<and> best_res m < hd res \<and> save_best_ckpt m
         \<longrightarrow> best_ckpt_path m \<noteq> None"
    by blast+
qed

lemma log_epoch_summary:
  assumes "log_epoch cb loss res w = (Inr (), w3)"
  defines "m \<equiv> monitor w"
  defines "cur \<equiv> cur_epoch_num cb + last_epoch (monitor w)"
  defines "due \<equiv> ckpt_save_interval m dvd cur \<or> cur = epoch_num cb"
  defines "path \<equiv> path_join (ckpt_dir m)
                     (model_name m @ ''-'' @ str_int cur @ ''_'' @ str_int (batch_num cb) @ ''.ckpt'')"
  shows "\<exists>es. trace w3 = trace w @ es
          \<and> Eval \<notin> set es
          \<and> (\<forall>names r. PrintValidation names r \<notin> set es)
          \<and> (\<forall>x p. SaveCheckpoint x p \<in> set es \<longleftrightarrow>
                 rank_id m = 0 \<and> due \<and> x = Optimizer (optimizer_id (select_optimizer m cb))
                 \<and> p = path_join (ckpt_dir m) (''optim_'' @ model_name m @ ''.ckpt''))
          \<and> (\<forall>n v p. ManagerSaveCkpoint n v p \<in> set es \<longleftrightarrow>
                 rank_id m = 0 \<and> due \<and> n = keep_checkpoint_max m \<and> v = hd res \<and> p = path)
          \<and> (\<forall>fp e l r. AppendResult fp e l r \<in> set es \<longleftrightarrow>
                 rank_id m = 0 \<and> log_txt_fp m = Some fp \<and> e = cur
                 \<and> (\<exists>t. loss = Some t \<and> l = hd t) \<and> r = res)"
    and "\<exists>fl nf. monitor w3 = m\<lparr>ckpoint_filelist := fl, need_flush_from_cache := nf\<rparr>"
    and "ckpoint_filelist (monitor w3) =
           (if rank_id m = 0 \<and> due
            then save_ckpoint (ckpt_save_policy m) (ckpoint_filelist m) (keep_checkpoint_max m)
                   (hd res) path
            else ckpoint_filelist m)"
    and "rank_id m = 0 \<and> due \<longrightarrow> res \<noteq> []"
    and "rank_id m = 0 \<longrightarrow> ckpt_save_interval m \<noteq> 0 \<and> loss \<noteq> None \<and> log_txt_fp m \<noteq> None"
    and "params w3 = params w"
proof -
  have refl: "\<exists>fl nf. m = m\<lparr>ckpoint_filelist := fl, need_flush_from_cache := nf\<rparr>"
    by (rule exI [of _ "ckpoint_filelist m"], rule exI [of _ "need_flush_from_cache m"]) simp
  have "(\<exists>es. trace w3 = trace w @ es
          \<and> Eval \<notin> set es
          \<and> (\<forall>names r. PrintValidation names r \<notin> set es)
          \<and> (\<forall>x p. SaveCheckpoint x p \<in> set es \<longleftrightarrow>
                 rank_id m = 0 \<and> due \<and> x = Optimizer (optimizer_id (select_optimizer m cb))
                 \<and> p = path_join (ckpt_dir m) (''optim_'' @ model_name m @ ''.ckpt''))
          \<and> (\<forall>n v p. ManagerSaveCkpoint n v p \<in> set es \<longleftrightarrow>
                 rank_id m = 0 \<and> due \<and> n = keep_checkpoint_max m \<and> v = hd res \<and> p = path)
          \<and> (\<forall>fp e l r. AppendResult fp e l r \<in> set es \<longleftrightarrow>
                 rank_id m = 0 \<and> log_txt_fp m = Some fp \<and> e = cur
                 \<and> (\<exists>t. loss = Some t \<and> l = hd t) \<and> r = res))
    \<and> (\<exists>fl nf. monitor w3 = m\<lparr>ckpoint_filelist := fl, need_flush_from_cache := nf\<rparr>)
    \<and> ckpoint_filelist (monitor w3) =
           (if rank_id m = 0 \<and> due
            then save_ckpoint (ckpt_save_policy m) (ckpoint_filelist m) (keep_checkpoint_max m)
                   (hd res) path
            else ckpoint_filelist m)
    \<and> (rank_id m = 0 \<and> due \<longrightarrow> res \<noteq> [])
    \<and> (rank_id m = 0 \<longrightarrow> ckpt_save_interval m \<noteq> 0 \<and> loss \<noteq> None \<and> log_txt_fp m \<noteq> None)
    \<and> params w3 = params w"
  proof (cases "rank_id m = 0")
    case False
    with log_epoch_Inr(1) [OF assms(1)] have "w3 = w" by (simp add: m_def)
    with False refl show ?thesis unfolding m_def by simp
  next
    case True
    with log_epoch_Inr(2) [OF assms(1)] obtain w1 l fp where
      se: "save_epoch cb res w = (Inr (), w1)" and l: "loss = Some l"
      and fp: "log_txt_fp m = Some fp"
      and w3: "w3 = emit [PrintEpochTime, AppendResult fp cur (hd l) res] w1"
      unfolding m_def cur_def by blast
    note s = save_epoch_Inr [OF se]
    show ?thesis
    proof (cases due)
      case False
      with s(2) have "w1 = w" by (simp add: due_def cur_def m_def)
      with False True w3 l fp s(1) refl show ?thesis by (auto simp: m_def)
    next
      case d: True
      from s(3) d have
        ne: "res \<noteq> []" and pa: "params w1 = params w"
        and tr: "trace w1 = trace w
             @ map FlushFromCache (if need_flush_from_cache m
                                   then filter (cache_enable cb) (train_network_parameters cb) else [])
             @ [SaveCheckpoint (Optimizer (optimizer_id (select_optimizer m cb)))
                  (path_join (ckpt_dir m) (''optim_'' @ model_name m @ ''.ckpt'')),
                ManagerSaveCkpoint (keep_checkpoint_max m) (hd res) path,
                (if ckpt_save_policy m = Some ''top_k''
                 then PrintTopK (ckpoint_filelist (monitor w1)) else PrintSaving path)]"
        and mo: "monitor w1 = m
             \<lparr>ckpoint_filelist := save_ckpoint (ckpt_save_policy m)
                  (ckpoint_filelist m) (keep_checkpoint_max m) (hd res) path,
              need_flush_from_cache := (need_flush_from_cache m
                  \<and> filter (cache_enable cb) (train_network_parameters cb) \<noteq> [])\<rparr>"
        unfolding due_def cur_def m_def path_def by blast+
      have fr: "\<exists>fl nf. monitor w3 = m\<lparr>ckpoint_filelist := fl, need_flush_from_cache := nf\<rparr>"
        unfolding w3 using mo by auto
      have t3: "trace w3 = trace w @
             (map FlushFromCache (if need_flush_from_cache m
                                   then filter (cache_enable cb) (train_network_parameters cb) else [])
             @ [SaveCheckpoint (Optimizer (optimizer_id (select_optimizer m cb)))
                  (path_join (ckpt_dir m) (''optim_'' @ model_name m @ ''.ckpt'')),
                ManagerSaveCkpoint (keep_checkpoint_max m) (hd res) path,
                (if ckpt_save_policy m = Some ''top_k''
                 then PrintTopK (ckpoint_filelist (monitor w1)) else PrintSaving path),
                PrintEpochTime, AppendResult fp cur (hd l) res])"
        unfolding w3 using tr by simp
      show ?thesis
        using t3 fr ne pa d True l fp s(1) mo
        by (auto simp: w3 m_def)
    qed
  qed
  then show "\<exists>es. trace w3 = trace w @ es
          \<and> Eval \<notin> set es
          \<and> (\<forall>names r. PrintValidation names r \<notin> set es)
          \<and> (\<forall>x p. SaveCheckpoint x p \<in> set es \<longleftrightarrow>
                 rank_id m = 0 \<and> due \<and> x = Optimizer (optimizer_id (select_optimizer m cb))
                 \<and> p = path_join (ckpt_dir m) (''optim_'' @ model_name m @ ''.ckpt''))
          \<and> (\<forall>n v p. ManagerSaveCkpoint n v p \<in> set es \<longleftrightarrow>
                 rank_id m = 0 \<and> due \<and> n = keep_checkpoint_max m \<and> v = hd res \<and> p = path)
          \<and> (\<forall>fp e l r. AppendResult fp e l r \<in> set es \<longleftrightarrow>
                 rank_id m = 0 \<and> log_txt_fp m = Some fp \<and> e = cur
                 \<and> (\<exists>t. loss = Some t \<and> l = hd t) \<and> r = res)"
    and "\<exists>fl nf. monitor w3 = m\<lparr>ckpoint_filelist := fl, need_flush_from_cache := nf\<rparr>"
    and "ckpoint_filelist (monitor w3) =
           (if rank_id m = 0 \<and> due
            then save_ckpoint (ckpt_save_policy m) (ckpoint_filelist m) (keep_checkpoint_max m)
                   (hd res) path
            else ckpoint_filelist m)"
    and "rank_id m = 0 \<and> due \<longrightarrow> res \<noteq> []"
    and "rank_id m = 0 \<longrightarrow> ckpt_save_interval m \<noteq> 0 \<and> loss \<noteq> None \<and> log_txt_fp m \<noteq> None"
    and "params w3 = params w"
    by blast+
qed

lemma reduce_res_swap:
  "reduce_res ev (m\<lparr>swap_params := sp\<rparr>) local = reduce_res ev m local"
  by (simp add: reduce_res_def)

lemma validation_res:
  assumes "validation ev cb w = (Inr res, w2)"
    and "dataset_val (monitor w) \<noteq> None"
    and "val_start_epoch (monitor w) \<le> cur_epoch_num cb + last_epoch (monitor w)"
    and "val_interval (monitor w) dvd
           cur_epoch_num cb + last_epoch (monitor w) - val_start_epoch (monitor w)"
  shows "\<exists>mind_res local. fst (apply_eval ev cb w) = Inr mind_res
           \<and> fill_res mind_res (metric_name (monitor w)) = Inr local
           \<and> reduce_res ev (monitor w) local = Inr res"
proof -
  from validation_Inr [OF assms(1)] assms(2-4) obtain mind_res wa local where
    a: "apply_eval ev cb w = (Inr mind_res, wa)"
    and f: "fill_res mind_res (metric_name (monitor w)) = Inr local"
    and r: "reduce_res ev (monitor wa) local = Inr res"
    by blast
  from apply_eval_monitor [OF a] obtain sp where "monitor wa = (monitor w)\<lparr>swap_params := sp\<rparr>"
    by blast
  with r have "reduce_res ev (monitor w) local = Inr res" by (simp add: reduce_res_swap)
  with a f show ?thesis by auto
qed

lemma on_train_epoch_end_summary:
  assumes "on_train_epoch_end ev cb w = (Inr res, w')"
  defines "m \<equiv> monitor w"
  defines "cur \<equiv> cur_epoch_num cb + last_epoch m"
  defines "vdue \<equiv> dataset_val m \<noteq> None \<and> val_start_epoch m \<le> cur
                   \<and> val_interval m dvd cur - val_start_epoch m"
  defines "cdue \<equiv> ckpt_save_interval m dvd cur \<or> cur = epoch_num cb"
  defines "path \<equiv> path_join (ckpt_dir m)
                     (model_name m @ ''-'' @ str_int cur @ ''_'' @ str_int (batch_num cb) @ ''.ckpt'')"
  shows "\<exists>es. trace w' = trace w @ es
          \<and> (Eval \<in> set es \<longleftrightarrow> vdue)
          \<and> (\<forall>x p. SaveCheckpoint x p \<in> set es \<longleftrightarrow>
                 (x = TrainNetwork \<and> p = the (best_ckpt_path m) \<and> vdue \<and> rank_id m = 0
                  \<and> best_res m < hd res \<and> save_best_ckpt m)
                 \<or> (rank_id m = 0 \<and> cdue \<and> x = Optimizer (optimizer_id (select_optimizer m cb))
                    \<and> p = path_join (ckpt_dir m) (''optim_'' @ model_name m @ ''.ckpt'')))
          \<and> (\<forall>names r. PrintValidation names r \<in> set es \<longleftrightarrow>
                 vdue \<and> rank_id m = 0 \<and> names = metric_name m \<and> r = res)
          \<and> (\<forall>n v p. ManagerSaveCkpoint n v p \<in> set es \<longleftrightarrow>
                 rank_id m = 0 \<and> cdue \<and> n = keep_checkpoint_max m \<and> v = hd res \<and> p = path)
          \<and> (\<forall>fp e l r. AppendResult fp e l r \<in> set es \<longleftrightarrow>
                 rank_id m = 0 \<and> log_txt_fp m = Some fp \<and> e = cur
                 \<and> (\<exists>t. get_loss cb = Inr (Some t) \<and> l = hd t) \<and> r = res)"
    and "\<exists>b e sp fl nf. monitor w' = m\<lparr>best_res := b, best_epoch := e, swap_params := sp,
                                         ckpoint_filelist := fl, need_flush_from_cache := nf\<rparr>"
    and "(best_res (monitor w'), best_epoch (monitor w')) =
           (if vdue \<and> rank_id m = 0 \<and> best_res m < hd res then (hd res, cur)
            else (best_res m, best_epoch m))"
    and "ckpoint_filelist (monitor w') =
           (if rank_id m = 0 \<and> cdue
            then save_ckpoint (ckpt_save_policy m) (ckpoint_filelist m) (keep_checkpoint_max m)
                   (hd res) path
            else ckpoint_filelist m)"
    and "(vdue \<or> cdue) \<and> rank_id m = 0 \<longrightarrow> res \<noteq> []"
    and "\<not> vdue \<longrightarrow> res = replicate (length (metric_name m)) 0"
    and "vdue \<and> rank_id m = 0 \<and> best_res m < hd res \<and> save_best_ckpt m
         \<longrightarrow> best_ckpt_path m \<noteq> None"
    and "rank_id m = 0 \<longrightarrow> ckpt_save_interval m \<noteq> 0 \<and> log_txt_fp m \<noteq> None
           \<and> (\<exists>t. get_loss cb = Inr (Some t))"
    and "summary_record m"
    and "vdue \<longrightarrow> (\<exists>mind_res local. fst (apply_eval ev cb w) = Inr mind_res
           \<and> fill_res mind_res (metric_name m) = Inr local
           \<and> reduce_res ev m local = Inr res)"
proof -
  from on_train_epoch_end_Inr [OF assms(1)] obtain loss w2 w3 where
    gl: "get_loss cb = Inr loss" and sr: "summary_record m"
    and va: "validation ev cb
              (emit [SummaryAddValue (''train_loss_'' @ str_int (rank_id m)) loss] w) = (Inr res, w2)"
    and lo: "log_epoch cb loss res w2 = (Inr (), w3)"
    and w': "w' = emit [SummaryRecordStep (global_step (select_optimizer m cb))] w3"
    unfolding m_def by blast
  let ?w1 = "emit [SummaryAddValue (''train_loss_'' @ str_int (rank_id m)) loss] w"
  have m1: "monitor ?w1 = m" by (simp add: m_def)
  note v = validation_summary [OF va, unfolded emit_simps, folded m_def, folded cur_def, folded vdue_def]
  from v(2) obtain b e sp where m2: "monitor w2 = m\<lparr>best_res := b, best_epoch := e, swap_params := sp\<rparr>"
    by blast
  have f2: "rank_id (monitor w2) = rank_id m" "last_epoch (monitor w2) = last_epoch m"
    "ckpt_save_interval (monitor w2) = ckpt_save_interval m" "ckpt_dir (monitor w2) = ckpt_dir m"
    "model_name (monitor w2) = model_name m" "keep_checkpoint_max (monitor w2) = keep_checkpoint_max m"
    "log_txt_fp (monitor w2) = log_txt_fp m" "ckpt_save_policy (monitor w2) = ckpt_save_policy m"
    "ckpoint_filelist (monitor w2) = ckpoint_filelist m"
    "select_optimizer (monitor w2) cb = select_optimizer m cb"
    by (simp_all add: m2 select_optimizer_def)
  note l = log_epoch_summary [OF lo, unfolded f2, folded cur_def, folded cdue_def, folded path_def]
  from v(1) obtain es1 where A: "trace w2 = (trace w @ [SummaryAddValue (''train_loss_'' @ str_int (rank_id m)) loss]) @ es1
      \<and> ((Eval \<in> set es1) = vdue)
      \<and> (\<forall>x p. (SaveCheckpoint x p \<in> set es1) =
                 (x = TrainNetwork \<and> p = the (best_ckpt_path m) \<and> vdue \<and> rank_id m = 0
                 \<and> best_res m < hd res \<and> save_best_ckpt m))
      \<and> (\<forall>names r. (PrintValidation names r \<in> set es1) =
                 (vdue \<and> rank_id m = 0 \<and> names = metric_name m \<and> r = res))
      \<and> (\<forall>n v p. ManagerSaveCkpoint n v p \<notin> set es1)
      \<and> (\<forall>fp e l r. AppendResult fp e l r \<notin> set es1)" ..
  note es1 = A [THEN conjunct1]
    and e1 = A [THEN conjunct2, THEN conjunct1]
    and s1 = A [THEN conjunct2, THEN conjunct2, THEN conjunct1]
    and p1 = A [THEN conjunct2, THEN conjunct2, THEN conjunct2, THEN conjunct1]
    and g1 = A [THEN conjunct2, THEN conjunct2, THEN conjunct2, THEN conjunct2, THEN conjunct1]
    and a1 = A [THEN conjunct2, THEN conjunct2, THEN conjunct2, THEN conjunct2, THEN conjunct2]
  from l(1) obtain es2 where B: "trace w3 = trace w2 @ es2
      \<and> Eval \<notin> set es2
      \<and> (\<forall>names r. PrintValidation names r \<notin> set es2)
      \<and> (\<forall>x p. (SaveCheckpoint x p \<in> set es2) =
                 (rank_id m = 0 \<and> cdue \<and> x = Optimizer (optimizer_id (select_optimizer m cb))
                 \<and> p = path_join (ckpt_dir m) (''optim_'' @ model_name m @ ''.ckpt'')))
      \<and> (\<forall>n v p. (ManagerSaveCkpoint n v p \<in> set es2) =
                 (rank_id m = 0 \<and> cdue \<and> n = keep_checkpoint_max m \<and> v = hd res \<and> p = path))
      \<and> (\<forall>fp e l r. (AppendResult fp e l r \<in> set es2) =
                 (rank_id m = 0 \<and> log_txt_fp m = Some fp \<and> e = cur
                 \<and> (\<exists>t. loss = Some t \<and> l = hd t) \<and> r = res))" ..
  note es2 = B [THEN conjunct1]
    and e2 = B [THEN conjunct2, THEN conjunct1]
    and p2 = B [THEN conjunct2, THEN conjunct2, THEN conjunct1]
    and s2 = B [THEN conjunct2, THEN conjunct2, THEN conjunct2, THEN conjunct1]
    and g2 = B [THEN conjunct2, THEN conjunct2, THEN conjunct2, THEN conjunct2, THEN conjunct1]
    and a2 = B [THEN conjunct2, THEN conjunct2, THEN conjunct2, THEN conjunct2, THEN conjunct2]
  let ?es = "[SummaryAddValue (''train_loss_'' @ str_int (rank_id m)) loss] @ es1 @ es2
             @ [SummaryRecordStep (global_step (select_optimizer m cb))]"
  have tr: "trace w' = trace w @ ?es" by (simp add: w' es2 es1)
  have c1: "Eval \<in> set ?es \<longleftrightarrow> vdue" using e1 e2 by simp
  have c2: "\<forall>x p. SaveCheckpoint x p \<in> set ?es \<longleftrightarrow>
                 (x = TrainNetwork \<and> p = the (best_ckpt_path m) \<and> vdue \<and> rank_id m = 0
                  \<and> best_res m < hd res \<and> save_best_ckpt m)
                 \<or> (rank_id m = 0 \<and> cdue \<and> x = Optimizer (optimizer_id (select_optimizer m cb))
                    \<and> p = path_join (ckpt_dir m) (''optim_'' @ model_name m @ ''.ckpt''))"
    using s1 s2 by simp
  have c3: "\<forall>names r. PrintValidation names r \<in> set ?es \<longleftrightarrow>
                 vdue \<and> rank_id m = 0 \<and> names = metric_name m \<and> r = res"
    using p1 p2 by simp
  have c4: "\<forall>n v p. ManagerSaveCkpoint n v p \<in> set ?es \<longleftrightarrow>
                 rank_id m = 0 \<and> cdue \<and> n = keep_checkpoint_max m \<and> v = hd res \<and> p = path"
    using g1 g2 by simp
  have c5: "\<forall>fp e l r. AppendResult fp e l r \<in> set ?es \<longleftrightarrow>
                 rank_id m = 0 \<and> log_txt_fp m = Some fp \<and> e = cur
                 \<and> (\<exists>t. get_loss cb = Inr (Some t) \<and> l = hd t) \<and> r = res"
    using a1 a2 gl by simp
  show "\<exists>es. trace w' = trace w @ es
          \<and> (Eval \<in> set es \<longleftrightarrow> vdue)
          \<and> (\<forall>x p. SaveCheckpoint x p \<in> set es \<longleftrightarrow>
                 (x = TrainNetwork \<and> p = the (best_ckpt_path m) \<and> vdue \<and> rank_id m = 0
                  \<and> best_res m < hd res \<and> save_best_ckpt m)
                 \<or> (rank_id m = 0 \<and> cdue \<and> x = Optimizer (optimizer_id (select_optimizer m cb))
                    \<and> p = path_join (ckpt_dir m) (''optim_'' @ model_name m @ ''.ckpt'')))
          \<and> (\<forall>names r. PrintValidation names r \<in> set es \<longleftrightarrow>
                 vdue \<and> rank_id m = 0 \<and> names = metric_name m \<and> r = res)
          \<and> (\<forall>n v p. ManagerSaveCkpoint n v p \<in> set es \<longleftrightarrow>
                 rank_id m = 0 \<and> cdue \<and> n = keep_checkpoint_max m \<and> v = hd res \<and> p = path)
          \<and> (\<forall>fp e l r. AppendResult fp e l r \<in> set es \<longleftrightarrow>
                 rank_id m = 0 \<and> log_txt_fp m = Some fp \<and> e = cur
                 \<and> (\<exists>t. get_loss cb = Inr (Some t) \<and> l = hd t) \<and> r = res)"
    using tr c1 c2 c3 c4 c5 by (intro exI [of _ ?es] conjI)
  from l(2) obtain fl nf where m3: "monitor w3 = (monitor w2)\<lparr>ckpoint_filelist := fl, need_flush_from_cache := nf\<rparr>"
    by blast
  have m': "monitor w' = m\<lparr>best_res := b, best_epoch := e, swap_params := sp,
                            ckpoint_filelist := fl, need_flush_from_cache := nf\<rparr>"
    by (simp add: w' m3 m2)
  then show "\<exists>b e sp fl nf. monitor w' = m\<lparr>best_res := b, best_epoch := e, swap_params := sp,
                                         ckpoint_filelist := fl, need_flush_from_cache := nf\<rparr>"
    by blast
  have "best_res (monitor w') = best_res (monitor w2)" "best_epoch (monitor w') = best_epoch (monitor w2)"
    by (simp_all add: w' m3)
  with v(3) show "(best_res (monitor w'), best_epoch (monitor w')) =
           (if vdue \<and> rank_id m = 0 \<and> best_res m < hd res then (hd res, cur)
            else (best_res m, best_epoch m))"
    by simp
  from l(3) show "ckpoint_filelist (monitor w') =
           (if rank_id m = 0 \<and> cdue
            then save_ckpoint (ckpt_save_policy m) (ckpoint_filelist m) (keep_checkpoint_max m)
                   (hd res) path
            else ckpoint_filelist m)"
    by (simp add: w')
  from v(4) l(4) show "(vdue \<or> cdue) \<and> rank_id m = 0 \<longrightarrow> res \<noteq> []" by blast
  from v(5) show "\<not> vdue \<longrightarrow> res = replicate (length (metric_name m)) 0" .
  from v(6) show "vdue \<and> rank_id m = 0 \<and> best_res m < hd res \<and> save_best_ckpt m
         \<longrightarrow> best_ckpt_path m \<noteq> None" .
  from l(5) gl show "rank_id m = 0 \<longrightarrow> ckpt_save_interval m \<noteq> 0 \<and> log_txt_fp m \<noteq> None
           \<and> (\<exists>t. get_loss cb = Inr (Some t))" by auto
  from sr show "summary_record m" .
  show "vdue \<longrightarrow> (\<exists>mind_res local. fst (apply_eval ev cb w) = Inr mind_res
           \<and> fill_res mind_res (metric_name m) = Inr local
           \<and> reduce_res ev m local = Inr res)"
  proof
    assume vdue
    with validation_res [OF va, unfolded emit_simps apply_eval_emit, folded m_def, folded cur_def]
    show "\<exists>mind_res local. fst (apply_eval ev cb w) = Inr mind_res
           \<and> fill_res mind_res (metric_name m) = Inr local
           \<and> reduce_res ev m local = Inr res"
      unfolding vdue_def by blast
  qed
qed

section \<open>An epoch end on the example inputs\<close>

lemma example_epoch_end_fst:
  "fst (on_train_epoch_end example_env example_cb example_world) = Inr [50]"
  by (simp add: on_train_epoch_end_def validation_def log_epoch_def save_epoch_def
      record_validation_def reduce_res_def flush_from_cache_def select_optimizer_def
      get_loss_def np_mean_def py_mod_def
      apply_eval_def example_world_def example_monitor_eq example_cb_def example_env_def
      example_params_def example_model_def assign_swap_def assign_online_def run_eval_def emit_def
      load_param_into_net_def py_split_def startswith_def Let_def save_ckpoint_def path_join_def
      str_int_def str_nat.simps digit_def)

lemma example_epoch_end_trace:
  "trace (snd (on_train_epoch_end example_env example_cb example_world)) =
    [SummaryAddValue ''train_loss_0'' (Some [3 / 2]), Eval,
     PrintValidation [''accuracy''] [50],
     SaveCheckpoint TrainNetwork ''ckpt/best.ckpt'', PrintNewBest 50,
     SummaryAddValue ''val_accuracy'' (Some [50]),
     SaveCheckpoint (Optimizer 2) ''ckpt/optim_net.ckpt'',
     ManagerSaveCkpoint 10 50 ''ckpt/net-2_50.ckpt'',
     PrintSaving ''ckpt/net-2_50.ckpt'', PrintEpochTime,
     AppendResult ''ckpt/result.log'' 2 (3 / 2) [50], SummaryRecordStep 100]"
  by (simp add: on_train_epoch_end_def validation_def log_epoch_def save_epoch_def
      record_validation_def reduce_res_def flush_from_cache_def select_optimizer_def
      get_loss_def np_mean_def py_mod_def
      apply_eval_def example_world_def example_monitor_eq example_cb_def example_env_def
      example_params_def example_model_def assign_swap_def assign_online_def run_eval_def emit_def
      load_param_into_net_def py_split_def startswith_def Let_def save_ckpoint_def path_join_def
      str_int_def str_nat.simps digit_def)


lemma example_epoch_end_early:
  "fst (on_train_epoch_end example_env (example_cb\<lparr>cur_epoch_num := 0\<rparr>) example_world) = Inr [0]"
  by (simp add: on_train_epoch_end_def validation_def log_epoch_def save_epoch_def
      flush_from_cache_def select_optimizer_def get_loss_def np_mean_def py_mod_def
      example_world_def example_monitor_eq example_cb_def emit_def
      Let_def save_ckpoint_def path_join_def startswith_def
      str_int_def str_nat.simps digit_def)

lemma example_epoch_end:
  "on_train_epoch_end example_env example_cb example_world =
     (Inr [50], snd (on_train_epoch_end example_env example_cb example_world))"
  using example_epoch_end_fst by (simp add: prod_eq_iff)

lemma example_monitor_world [simp]: "monitor example_world = example_monitor"
  and example_trace_world [simp]: "trace example_world = []"
  by (simp_all add: example_world_def)

section \<open>When validation runs\<close>

text \<open>
  Claim C4.  For every call of \<^verbatim>\<open>on_train_epoch_end\<close> that returns: the evaluation runs
  during the call exactly when a validation set is given, \<open>cur_epoch\<close> has reached
  \<open>val_start_epoch\<close> and \<open>val_interval\<close> divides \<open>cur_epoch - val_start_epoch\<close>,
  where \<open>cur_epoch = cur_epoch_num + last_epoch\<close>.  When it does not run, the metric
  vector \<open>res\<close> is the vector of zeros, one per metric name; on rank 0 the line
  appended to the result log carries this vector.
\<close>

theorem validation_runs_when_due:
  assumes "on_train_epoch_end ev cb w = (Inr res, w')"
  shows "\<exists>es. trace w' = trace w @ es
          \<and> (Eval \<in> set es \<longleftrightarrow>
                dataset_val (monitor w) \<noteq> None
              \<and> val_start_epoch (monitor w) \<le> cur_epoch_num cb + last_epoch (monitor w)
              \<and> val_interval (monitor w) dvd
                   cur_epoch_num cb + last_epoch (monitor w) - val_start_epoch (monitor w))
          \<and> (Eval \<notin> set es \<longrightarrow> res = replicate (length (metric_name (monitor w))) 0)
          \<and> (rank_id (monitor w) = 0 \<longrightarrow>
               (\<exists>fp l. AppendResult fp (cur_epoch_num cb + last_epoch (monitor w)) l res \<in> set es))"
proof -
  note s = on_train_epoch_end_summary [OF assms]
  from s(1) obtain es where A: "trace w' = trace w @ es"
    and B: "Eval \<in> set es \<longleftrightarrow>
                dataset_val (monitor w) \<noteq> None
              \<and> val_start_epoch (monitor w) \<le> cur_epoch_num cb + last_epoch (monitor w)
              \<and> val_interval (monitor w) dvd
                   cur_epoch_num cb + last_epoch (monitor w) - val_start_epoch (monitor w)"
    and C: "\<forall>fp e l r. AppendResult fp e l r \<in> set es \<longleftrightarrow>
                 rank_id (monitor w) = 0 \<and> log_txt_fp (monitor w) = Some fp
                 \<and> e = cur_epoch_num cb + last_epoch (monitor w)
                 \<and> (\<exists>t. get_loss cb = Inr (Some t) \<and> l = hd t) \<and> r = res"
    by (elim exE conjE)
  have "Eval \<notin> set es \<longrightarrow> res = replicate (length (metric_name (monitor w))) 0"
    using s(6) B by simp
  moreover have "rank_id (monitor w) = 0 \<longrightarrow>
      (\<exists>fp l. AppendResult fp (cur_epoch_num cb + last_epoch (monitor w)) l res \<in> set es)"
  proof
    assume r0: "rank_id (monitor w) = 0"
    with s(8) obtain fp t where "log_txt_fp (monitor w) = Some fp" "get_loss cb = Inr (Some t)"
      by auto
    with C r0 have "AppendResult fp (cur_epoch_num cb + last_epoch (monitor w)) (hd t) res \<in> set es"
      by simp
    then show "\<exists>fp l. AppendResult fp (cur_epoch_num cb + last_epoch (monitor w)) l res \<in> set es"
      by blast
  qed
  ultimately show ?thesis using A B by (intro exI [of _ es] conjI)
qed

theorem validation_runs_when_due_witness:
  "on_train_epoch_end example_env example_cb example_world =
     (Inr [50], snd (on_train_epoch_end example_env example_cb example_world))
   \<and> Eval \<in> set (trace (snd (on_train_epoch_end example_env example_cb example_world)))
   \<and> dataset_val (monitor example_world) \<noteq> None
   \<and> val_start_epoch (monitor example_world) \<le> cur_epoch_num example_cb + last_epoch (monitor example_world)
   \<and> val_interval (monitor example_world) dvd
        cur_epoch_num example_cb + last_epoch (monitor example_world) - val_start_epoch (monitor example_world)
   \<and> fst (on_train_epoch_end example_env (example_cb\<lparr>cur_epoch_num := 0\<rparr>) example_world) = Inr [0]"
  using validation_runs_when_due [OF example_epoch_end] example_epoch_end example_epoch_end_early
  by (simp add: example_epoch_end_trace example_monitor_eq example_cb_def)


section \<open>The best checkpoint\<close>

lemma init_best_ckpt_path:
  "StateMonitor_init a isdir ps = (Inr m0, es0) \<Longrightarrow> rank_id m0 = 0 \<Longrightarrow>
   best_ckpt_path m0 = Some (path_join (arg_ckpt_dir a) (arg_best_ckpt_name a))
   \<and> best_res m0 = 0"
  by (auto simp: StateMonitor_init_def Let_def split: option.splits if_splits)

text \<open>
  Claim C3.  For every call of \<^verbatim>\<open>on_train_epoch_end\<close> that returns, on a monitor whose
  \<open>best_res\<close> is not negative (it starts at 0 and only grows): the train network is
  saved as the best checkpoint during the call exactly when \<open>res[0]\<close> exceeds the
  previous \<open>best_res\<close>, \<open>save_best_ckpt\<close> is set and the rank is 0.  It is saved to
  \<open>best_ckpt_path\<close>, which the call does not change and which \<^verbatim>\<open>__init__\<close> sets on rank 0
  to \<open>ckpt_dir\<close> joined with \<open>best_ckpt_name\<close>.  After the call \<open>best_res\<close> is still
  not negative.
\<close>

theorem best_checkpoint_written_iff:
  assumes "on_train_epoch_end ev cb w = (Inr res, w')" and "0 \<le> best_res (monitor w)"
  shows "\<exists>es. trace w' = trace w @ es
          \<and> ((\<exists>p. SaveCheckpoint TrainNetwork p \<in> set es) \<longleftrightarrow>
                res \<noteq> [] \<and> best_res (monitor w) < hd res \<and> save_best_ckpt (monitor w)
              \<and> rank_id (monitor w) = 0)
          \<and> (\<forall>p. SaveCheckpoint TrainNetwork p \<in> set es \<longrightarrow> best_ckpt_path (monitor w) = Some p)
          \<and> best_ckpt_path (monitor w') = best_ckpt_path (monitor w)
          \<and> 0 \<le> best_res (monitor w')
          \<and> (\<forall>a isdir ps m0 es0. StateMonitor_init a isdir ps = (Inr m0, es0) \<and> rank_id m0 = 0
                \<longrightarrow> best_ckpt_path m0 = Some (path_join (arg_ckpt_dir a) (arg_best_ckpt_name a))
                  \<and> best_res m0 = 0)"
proof -
  let ?vdue = "dataset_val (monitor w) \<noteq> None
              \<and> val_start_epoch (monitor w) \<le> cur_epoch_num cb + last_epoch (monitor w)
              \<and> val_interval (monitor w) dvd
                   cur_epoch_num cb + last_epoch (monitor w) - val_start_epoch (monitor w)"
  note s = on_train_epoch_end_summary [OF assms(1)]
  from s(1) obtain es where A: "trace w' = trace w @ es"
    and B: "\<forall>x p. SaveCheckpoint x p \<in> set es \<longleftrightarrow>
                 (x = TrainNetwork \<and> p = the (best_ckpt_path (monitor w)) \<and> ?vdue
                  \<and> rank_id (monitor w) = 0
                  \<and> best_res (monitor w) < hd res \<and> save_best_ckpt (monitor w))
                 \<or> (rank_id (monitor w) = 0
                    \<and> (ckpt_save_interval (monitor w) dvd cur_epoch_num cb + last_epoch (monitor w)
                       \<or> cur_epoch_num cb + last_epoch (monitor w) = epoch_num cb)
                    \<and> x = Optimizer (optimizer_id (select_optimizer (monitor w) cb))
                    \<and> p = path_join (ckpt_dir (monitor w)) (''optim_'' @ model_name (monitor w) @ ''.ckpt''))"
    by (elim exE conjE)
  have B': "\<And>p. SaveCheckpoint TrainNetwork p \<in> set es \<longleftrightarrow>
                 p = the (best_ckpt_path (monitor w)) \<and> ?vdue \<and> rank_id (monitor w) = 0
                  \<and> best_res (monitor w) < hd res \<and> save_best_ckpt (monitor w)"
    using B by simp
  have due: "res \<noteq> [] \<Longrightarrow> best_res (monitor w) < hd res \<Longrightarrow> ?vdue"
  proof (rule ccontr)
    assume ne: "res \<noteq> []" and lt: "best_res (monitor w) < hd res" and "\<not> ?vdue"
    with s(6) have "res = replicate (length (metric_name (monitor w))) 0" by blast
    with ne have "hd res = 0" by (cases "length (metric_name (monitor w))") auto
    with lt assms(2) show False by simp
  qed
  have c1: "(\<exists>p. SaveCheckpoint TrainNetwork p \<in> set es) \<longleftrightarrow>
                res \<noteq> [] \<and> best_res (monitor w) < hd res \<and> save_best_ckpt (monitor w)
              \<and> rank_id (monitor w) = 0"
    using B' due s(5) by blast
  have c2: "\<forall>p. SaveCheckpoint TrainNetwork p \<in> set es \<longrightarrow> best_ckpt_path (monitor w) = Some p"
    using B' s(7) by auto
  from s(2) have c3: "best_ckpt_path (monitor w') = best_ckpt_path (monitor w)" by auto
  have c4: "\<forall>a isdir ps m0 es0. StateMonitor_init a isdir ps = (Inr m0, es0) \<and> rank_id m0 = 0
                \<longrightarrow> best_ckpt_path m0 = Some (path_join (arg_ckpt_dir a) (arg_best_ckpt_name a))
                  \<and> best_res m0 = 0"
    using init_best_ckpt_path by blast
  have c5: "0 \<le> best_res (monitor w')"
    using s(3) assms(2) by (auto split: if_splits)
  show ?thesis using A c1 c2 c3 c5 c4 by (intro exI [of _ es] conjI)
qed

theorem best_checkpoint_written_iff_witness:
  "on_train_epoch_end example_env example_cb example_world =
     (Inr [50], snd (on_train_epoch_end example_env example_cb example_world))
   \<and> 0 \<le> best_res (monitor example_world)
   \<and> SaveCheckpoint TrainNetwork ''ckpt/best.ckpt''
        \<in> set (trace (snd (on_train_epoch_end example_env example_cb example_world)))
   \<and> best_res (monitor example_world) < hd [50] \<and> save_best_ckpt (monitor example_world)
   \<and> rank_id (monitor example_world) = 0
   \<and> best_ckpt_path (monitor example_world) = Some ''ckpt/best.ckpt''"
  using best_checkpoint_written_iff [OF example_epoch_end] example_epoch_end
  by (simp add: example_epoch_end_trace example_monitor_eq)

section \<open>The numbered checkpoints and the optimizer state\<close>





section \<open>The reduction over the devices\<close>

lemma example_world2_eq:
  "example_world2 =
     \<lparr>monitor =
        \<lparr>sm_model = example_model, dataset_val = Some 0, val_start_epoch = 1, save_best_ckpt = True,
         metric_name = [''accuracy''], best_res = 0, val_interval = 1, summary_dir = ''./'',
         rank_id = 0, device_num = 2, log_interval = 100, model_name = ''net'', ckpt_dir = ''ckpt'',
         ckpt_save_interval = 1, last_epoch = 0, best_epoch = - 1, keep_checkpoint_max = 10,
         ckpt_save_policy = None, ckpoint_filelist = [], need_flush_from_cache = True,
         dataset_sink_mode = True, log_txt_fp = Some ''ckpt/result.log'',
         best_ckpt_path = Some ''ckpt/best.ckpt'', all_reduce = True, ema = False,
         online_params = None, swap_params = [], summary_record = True\<rparr>,
      params = example_params, trace = []\<rparr>"
  by (simp add: example_world2_def StateMonitor_init_def StateMonitor_enter_def example_args2_def
      default_args_def example_model_def example_params_def path_join_def startswith_def Let_def)

lemma example_epoch_end2_fst:
  "fst (on_train_epoch_end example_env example_cb example_world2) = Inr [55 / 2]"
  by (simp add: on_train_epoch_end_def validation_def log_epoch_def save_epoch_def
      record_validation_def reduce_res_def all_reduce_sum_def flush_from_cache_def
      select_optimizer_def get_loss_def np_mean_def py_mod_def
      apply_eval_def example_world2_eq example_cb_def example_env_def
      example_params_def example_model_def run_eval_def emit_def
      Let_def save_ckpoint_def path_join_def startswith_def
      str_int_def str_nat.simps digit_def)

lemma example_epoch_end2:
  "on_train_epoch_end example_env example_cb example_world2 =
     (Inr [55 / 2], snd (on_train_epoch_end example_env example_cb example_world2))"
  using example_epoch_end2_fst by (simp add: prod_eq_iff)

lemma fill_res_Inr:
  "fill_res mind_res names = Inr local \<Longrightarrow>
   length local = length names
   \<and> (\<forall>i<length names. \<exists>v. mind_res (names ! i) = Some v \<and> local ! i = v * 100)"
proof (induction names arbitrary: local)
  case Nil
  then show ?case by simp
next
  case (Cons n ns)
  from Cons.prems obtain v vs where v: "mind_res n = Some v" and vs: "fill_res mind_res ns = Inr vs"
    and l: "local = v * 100 # vs"
    by (auto split: option.splits sum.splits)
  from Cons.IH [OF vs] have len: "length vs = length ns"
    and el: "\<forall>i<length ns. \<exists>v. mind_res (ns ! i) = Some v \<and> vs ! i = v * 100"
    by simp_all
  show ?case
  proof (intro conjI allI impI)
    show "length local = length (n # ns)" using l len by simp
  next
    fix i assume "i < length (n # ns)"
    then show "\<exists>v. mind_res ((n # ns) ! i) = Some v \<and> local ! i = v * 100"
      using v l el by (cases i) auto
  qed
qed

lemma reduce_res_Inr:
  "reduce_res ev m local = Inr res \<Longrightarrow>
   length res = length local
   \<and> (\<forall>i<length local. res ! i =
        (if 1 < device_num m
         then sum_list (map (\<lambda>v. v ! i) (local # peer_res ev)) / real_of_int (device_num m)
         else local ! i))"
  by (auto simp: reduce_res_def all_reduce_sum_def split: if_splits)


text \<open>
  Claim C5.  For every call of \<^verbatim>\<open>on_train_epoch_end\<close> that returns and in which validation
  is due: the local metric vector holds, for every metric name, 100 times the value the
  evaluation returned under that name.  With more than one device, every entry of \<open>res\<close>
  is the sum of that entry over the vectors of all devices (the local one and the peers'),
  divided by \<open>device_num\<close>; otherwise \<open>res\<close> is the local vector.  On rank 0 this
  \<open>res\<close> is the vector printed by the validation line and appended to the result log,
  and its first entry is the one compared with \<open>best_res\<close>.
\<close>

theorem validation_metric_is_device_mean:
  assumes "on_train_epoch_end ev cb w = (Inr res, w')"
    and "dataset_val (monitor w) \<noteq> None"
    and "val_start_epoch (monitor w) \<le> cur_epoch_num cb + last_epoch (monitor w)"
    and "val_interval (monitor w) dvd
           cur_epoch_num cb + last_epoch (monitor w) - val_start_epoch (monitor w)"
  shows "\<exists>mind_res local es.
           fst (apply_eval ev cb w) = Inr mind_res
         \<and> length local = length (metric_name (monitor w))
         \<and> (\<forall>i<length (metric_name (monitor w)).
               \<exists>v. mind_res (metric_name (monitor w) ! i) = Some v \<and> local ! i = v * 100)
         \<and> length res = length local
         \<and> (\<forall>i<length local. res ! i =
               (if 1 < device_num (monitor w)
                then sum_list (map (\<lambda>v. v ! i) (local # peer_res ev))
                       / real_of_int (device_num (monitor w))
                else local ! i))
         \<and> trace w' = trace w @ es
         \<and> (rank_id (monitor w) = 0 \<longrightarrow>
               PrintValidation (metric_name (monitor w)) res \<in> set es
             \<and> (\<exists>fp l. AppendResult fp (cur_epoch_num cb + last_epoch (monitor w)) l res \<in> set es)
             \<and> (best_res (monitor w'), best_epoch (monitor w')) =
                 (if best_res (monitor w) < hd res
                  then (hd res, cur_epoch_num cb + last_epoch (monitor w))
                  else (best_res (monitor w), best_epoch (monitor w))))"
proof -
  note s = on_train_epoch_end_summary [OF assms(1)]
  from s(10) assms(2-4) obtain mind_res local where
    a: "fst (apply_eval ev cb w) = Inr mind_res"
    and f: "fill_res mind_res (metric_name (monitor w)) = Inr local"
    and r: "reduce_res ev (monitor w) local = Inr res"
    by blast
  from s(1) obtain es where A: "trace w' = trace w @ es"
    and P: "\<forall>names r. PrintValidation names r \<in> set es \<longleftrightarrow>
                 (dataset_val (monitor w) \<noteq> None
                  \<and> val_start_epoch (monitor w) \<le> cur_epoch_num cb + last_epoch (monitor w)
                  \<and> val_interval (monitor w) dvd
                      cur_epoch_num cb + last_epoch (monitor w) - val_start_epoch (monitor w))
                 \<and> rank_id (monitor w) = 0 \<and> names = metric_name (monitor w) \<and> r = res"
    and C: "\<forall>fp e l r. AppendResult fp e l r \<in> set es \<longleftrightarrow>
                 rank_id (monitor w) = 0 \<and> log_txt_fp (monitor w) = Some fp
                 \<and> e = cur_epoch_num cb + last_epoch (monitor w)
                 \<and> (\<exists>t. get_loss cb = Inr (Some t) \<and> l = hd t) \<and> r = res"
    by (elim exE conjE)
  have rank0: "rank_id (monitor w) = 0 \<longrightarrow>
               PrintValidation (metric_name (monitor w)) res \<in> set es
             \<and> (\<exists>fp l. AppendResult fp (cur_epoch_num cb + last_epoch (monitor w)) l res \<in> set es)
             \<and> (best_res (monitor w'), best_epoch (monitor w')) =
                 (if best_res (monitor w) < hd res
                  then (hd res, cur_epoch_num cb + last_epoch (monitor w))
                  else (best_res (monitor w), best_epoch (monitor w)))"
  proof (intro impI conjI)
    assume r0: "rank_id (monitor w) = 0"
    show "PrintValidation (metric_name (monitor w)) res \<in> set es"
      using P r0 assms(2-4) by simp
    from r0 s(8) obtain fp t where "log_txt_fp (monitor w) = Some fp" "get_loss cb = Inr (Some t)"
      by auto
    with C r0 have "AppendResult fp (cur_epoch_num cb + last_epoch (monitor w)) (hd t) res \<in> set es"
      by simp
    then show "\<exists>fp l. AppendResult fp (cur_epoch_num cb + last_epoch (monitor w)) l res \<in> set es"
      by blast
    show "(best_res (monitor w'), best_epoch (monitor w')) =
                 (if best_res (monitor w) < hd res
                  then (hd res, cur_epoch_num cb + last_epoch (monitor w))
                  else (best_res (monitor w), best_epoch (monitor w)))"
      using s(3) r0 assms(2-4) by simp
  qed
  from fill_res_Inr [OF f] reduce_res_Inr [OF r] a A rank0
  show ?thesis by (intro exI [of _ mind_res] exI [of _ local] exI [of _ es]) simp
qed

theorem validation_metric_is_device_mean_witness:
  "on_train_epoch_end example_env example_cb example_world2 =
     (Inr [55 / 2], snd (on_train_epoch_end example_env example_cb example_world2))
   \<and> dataset_val (monitor example_world2) \<noteq> None
   \<and> val_start_epoch (monitor example_world2)
        \<le> cur_epoch_num example_cb + last_epoch (monitor example_world2)
   \<and> val_interval (monitor example_world2) dvd
        cur_epoch_num example_cb + last_epoch (monitor example_world2)
        - val_start_epoch (monitor example_world2)
   \<and> device_num (monitor example_world2) = 2 \<and> peer_res example_env = [[30]]
   \<and> (\<exists>mind_res. fst (apply_eval example_env example_cb example_world2) = Inr mind_res
         \<and> mind_res ''accuracy'' = Some (1 / 4))
   \<and> [55 / 2] ! 0 = (25 + 30) / (2::real)"
  using validation_metric_is_device_mean [OF example_epoch_end2] example_epoch_end2
  by (simp add: example_world2_eq example_cb_def example_env_def apply_eval_def run_eval_def
      emit_def example_params_def)

section \<open>The device number without a rank\<close>

lemma init_without_rank:
  "arg_rank_id a = None \<Longrightarrow>
   \<exists>m es. StateMonitor_init a isdir ps = (Inr m, es) \<and> rank_id m = 0 \<and> device_num m = 1
         \<and> \<not> all_reduce m \<and> ConstructAllReduce \<notin> set es"
  by (simp add: StateMonitor_init_def Let_def)

lemma init_with_rank:
  "arg_rank_id a = Some r \<Longrightarrow> arg_device_num a = Some d \<Longrightarrow>
   \<exists>m es. StateMonitor_init a isdir ps = (Inr m, es) \<and> rank_id m = r \<and> device_num m = d
         \<and> all_reduce m = (1 < d) \<and> (ConstructAllReduce \<in> set es \<longleftrightarrow> 1 < d)"
  by (simp add: StateMonitor_init_def Let_def)

text \<open>
  Claim C8.  Constructed with \<^verbatim>\<open>rank_id=None\<close>, the monitor has rank 0 and
  \<open>device_num = 1\<close> whatever \<^verbatim>\<open>device_num\<close> argument was passed; no \<^verbatim>\<open>AllReduceSum\<close> is
  constructed, the reduction leaves every metric vector as it is, and no epoch end changes
  \<open>device_num\<close> or creates the reduction.  Constructed with a rank and a device
  number, the monitor has that device number, and the reduction is constructed exactly
  when it exceeds 1; with a rank and no device number the constructor raises.
\<close>

theorem device_num_ignored_without_rank:
  "(arg_rank_id a = None \<longrightarrow>
      (\<exists>m es. StateMonitor_init a isdir ps = (Inr m, es) \<and> rank_id m = 0 \<and> device_num m = 1
         \<and> \<not> all_reduce m \<and> ConstructAllReduce \<notin> set es
         \<and> (\<forall>ev res. reduce_res ev m res = Inr res)))
   \<and> (\<forall>r d. arg_rank_id a = Some r \<and> arg_device_num a = Some d \<longrightarrow>
      (\<exists>m es. StateMonitor_init a isdir ps = (Inr m, es) \<and> rank_id m = r \<and> device_num m = d
         \<and> all_reduce m = (1 < d) \<and> (ConstructAllReduce \<in> set es \<longleftrightarrow> 1 < d)))
   \<and> (\<forall>r. arg_rank_id a = Some r \<and> arg_device_num a = None \<longrightarrow>
         fst (StateMonitor_init a isdir ps) = Inl TypeError)
   \<and> (\<forall>ev cb w res w'. on_train_epoch_end ev cb w = (Inr res, w') \<longrightarrow>
         device_num (monitor w') = device_num (monitor w)
       \<and> all_reduce (monitor w') = all_reduce (monitor w))"
proof (intro conjI allI impI)
  assume n: "arg_rank_id a = None"
  from init_without_rank [OF n, of isdir ps] obtain m es where
    i: "StateMonitor_init a isdir ps = (Inr m, es)" "rank_id m = 0" "device_num m = 1"
       "\<not> all_reduce m" "ConstructAllReduce \<notin> set es"
    by blast
  then have "\<forall>ev res. reduce_res ev m res = Inr res" by (simp add: reduce_res_def)
  with i show "\<exists>m es. StateMonitor_init a isdir ps = (Inr m, es) \<and> rank_id m = 0 \<and> device_num m = 1
         \<and> \<not> all_reduce m \<and> ConstructAllReduce \<notin> set es
         \<and> (\<forall>ev res. reduce_res ev m res = Inr res)"
    by blast
next
  fix r d assume "arg_rank_id a = Some r \<and> arg_device_num a = Some d"
  then show "\<exists>m es. StateMonitor_init a isdir ps = (Inr m, es) \<and> rank_id m = r \<and> device_num m = d
         \<and> all_reduce m = (1 < d) \<and> (ConstructAllReduce \<in> set es \<longleftrightarrow> 1 < d)"
    using init_with_rank [of a r d isdir ps] by blast
next
  fix r assume "arg_rank_id a = Some r \<and> arg_device_num a = None"
  then show "fst (StateMonitor_init a isdir ps) = Inl TypeError"
    by (simp add: StateMonitor_init_def Let_def)
next
  fix ev cb w res w' assume "on_train_epoch_end ev cb w = (Inr res, w')"
  from on_train_epoch_end_summary(2) [OF this]
  show "device_num (monitor w') = device_num (monitor w)"
    and "all_reduce (monitor w') = all_reduce (monitor w)"
    by auto
qed

theorem device_num_ignored_without_rank_witness:
  "arg_rank_id ((default_args example_model)\<lparr>arg_device_num := Some 8\<rparr>) = None
   \<and> device_num (projr (fst (StateMonitor_init
        ((default_args example_model)\<lparr>arg_device_num := Some 8\<rparr>) True example_params))) = 1
   \<and> arg_rank_id example_args2 = Some 0 \<and> arg_device_num example_args2 = Some 2
   \<and> device_num (projr (fst (StateMonitor_init example_args2 True example_params))) = 2
   \<and> all_reduce (projr (fst (StateMonitor_init example_args2 True example_params)))"
  using device_num_ignored_without_rank
          [of "(default_args example_model)\<lparr>arg_device_num := Some 8\<rparr>" True example_params]
        device_num_ignored_without_rank [of example_args2 True example_params]
  by (auto simp: default_args_def example_args2_def)

section \<open>The best result over a run\<close>

lemma record_validation_best:
  "record_validation cur res w = (r, w2) \<Longrightarrow> best_res (monitor w) \<le> best_res (monitor w2)"
  by (auto simp: record_validation_def Let_def emit_def split: if_splits option.splits)

lemma validation_best:
  assumes "validation ev cb w = (r, w2)"
  shows "best_res (monitor w) \<le> best_res (monitor w2)"
proof (cases "apply_eval ev cb w")
  case (Pair ra wa)
  note f = apply_eval_fields(3) [OF Pair]
  show ?thesis
  proof (cases "record_validation (cur_epoch_num cb + last_epoch (monitor w))
                  (projr (reduce_res ev (monitor wa)
                     (projr (fill_res (projr ra) (metric_name (monitor w)))))) wa")
    case rv: (Pair rb wb)
    from record_validation_best [OF rv] f have "best_res (monitor w) \<le> best_res (monitor wb)"
      by simp
    with assms Pair rv f show ?thesis
      by (auto simp: validation_def Let_def py_mod_def split: if_splits sum.splits prod.splits)
  qed
qed

lemma log_epoch_best:
  "log_epoch cb loss res w = (r, w3) \<Longrightarrow> best_res (monitor w3) = best_res (monitor w)"
  by (auto simp: log_epoch_def Let_def emit_def save_epoch_fields
      split: if_splits sum.splits prod.splits option.splits)

lemma on_train_epoch_end_best:
  "best_res (monitor w) \<le> best_res (monitor (snd (on_train_epoch_end ev cb w)))"
proof -
  let ?w1 = "emit [SummaryAddValue (''train_loss_'' @ str_int (rank_id (monitor w)))
                     (projr (get_loss cb))] w"
  obtain rv w2 where v: "validation ev cb ?w1 = (rv, w2)" by (cases "validation ev cb ?w1")
  obtain rl w3 where l: "log_epoch cb (projr (get_loss cb)) (projr rv) w2 = (rl, w3)"
    by (cases "log_epoch cb (projr (get_loss cb)) (projr rv) w2")
  from validation_best [OF v] have a: "best_res (monitor w) \<le> best_res (monitor w2)" by simp
  from log_epoch_best [OF l] have b: "best_res (monitor w3) = best_res (monitor w2)" .
  show ?thesis
    using v l a b
    by (auto simp: on_train_epoch_end_def Let_def split: if_splits sum.splits prod.splits)
qed


lemma on_train_epoch_end_step:
  assumes "on_train_epoch_end ev cb w = (Inr res, w')"
    and "rank_id (monitor w) = 0" and "metric_name (monitor w) \<noteq> []"
    and "0 \<le> best_res (monitor w)"
  shows "(best_res (monitor w'), best_epoch (monitor w')) =
           (if best_res (monitor w) < hd res
            then (hd res, cur_epoch_num cb + last_epoch (monitor w))
            else (best_res (monitor w), best_epoch (monitor w)))"
    and "rank_id (monitor w') = 0" and "metric_name (monitor w') \<noteq> []"
    and "0 \<le> best_res (monitor w')"
proof -
  note s = on_train_epoch_end_summary [OF assms(1)]
  let ?vdue = "dataset_val (monitor w) \<noteq> None
              \<and> val_start_epoch (monitor w) \<le> cur_epoch_num cb + last_epoch (monitor w)
              \<and> val_interval (monitor w) dvd
                   cur_epoch_num cb + last_epoch (monitor w) - val_start_epoch (monitor w)"
  show eq: "(best_res (monitor w'), best_epoch (monitor w')) =
           (if best_res (monitor w) < hd res
            then (hd res, cur_epoch_num cb + last_epoch (monitor w))
            else (best_res (monitor w), best_epoch (monitor w)))"
  proof (cases ?vdue)
    case True
    with s(3) assms(2) show ?thesis by simp
  next
    case False
    with s(6) have "res = replicate (length (metric_name (monitor w))) 0" by blast
    with assms(3) have "hd res = 0" by (cases "metric_name (monitor w)") auto
    with s(3) False assms(4) show ?thesis by auto
  qed
  from s(2) assms(2,3) show "rank_id (monitor w') = 0" and "metric_name (monitor w') \<noteq> []"
    by auto
  from eq assms(4) show "0 \<le> best_res (monitor w')" by (auto split: if_splits)
qed

lemma run_epochs_fold:
  assumes "run_epochs calls w = (Inr obs, w')"
    and "rank_id (monitor w) = 0" and "metric_name (monitor w) \<noteq> []"
    and "0 \<le> best_res (monitor w)"
  shows "(best_res (monitor w'), best_epoch (monitor w')) =
           fold (\<lambda>(e, r) (b, be). if b < hd r then (hd r, e) else (b, be)) obs
             (best_res (monitor w), best_epoch (monitor w))"
  using assms
proof (induction calls arbitrary: w obs)
  case Nil
  then show ?case by simp
next
  case (Cons c calls)
  obtain ev cb where c: "c = (ev, cb)" by (cases c)
  from Cons.prems(1) c obtain res w1 obs' where
    st: "on_train_epoch_end ev cb w = (Inr res, w1)"
    and rest: "run_epochs calls w1 = (Inr obs', w')"
    and obs: "obs = (cur_epoch_num cb + last_epoch (monitor w), res) # obs'"
    by (auto split: sum.splits prod.splits)
  note step = on_train_epoch_end_step [OF st Cons.prems(2-4)]
  from Cons.IH [OF rest step(2-4)] step(1) obs show ?case by simp
qed

lemma best_fold_max:
  "fold (\<lambda>(e, r) (b, be). if b < hd r then (hd r, e) else (b, be)) obs (b0, e0) =
     (Max (insert b0 (set (map (\<lambda>(e, r). hd r) obs))),
      (case find (\<lambda>(e, r). hd r = Max (insert b0 (set (map (\<lambda>(e, r). hd r) obs))) \<and> b0 < hd r) obs of
         Some (e, r) \<Rightarrow> e | None \<Rightarrow> e0))"
proof (induction obs arbitrary: b0 e0)
  case Nil
  then show ?case by simp
next
  case (Cons x obs)
  obtain e r where x: "x = (e, r)" by (cases x)
  let ?vs = "set (map (\<lambda>(e, r). hd r) obs)"
  have fin: "finite ?vs" by simp
  show ?case
  proof (cases "b0 < hd r")
    case True
    have ge: "hd r \<le> Max (insert (hd r) ?vs)" using fin by simp
    have M: "Max (insert b0 (insert (hd r) ?vs)) = Max (insert (hd r) ?vs)"
    proof -
      have "Max (insert b0 (insert (hd r) ?vs)) = max b0 (Max (insert (hd r) ?vs))"
        using fin by (intro Max_insert) auto
      also have "\<dots> = Max (insert (hd r) ?vs)"
      proof (rule max.absorb2)
        from True ge have "b0 < Max (insert (hd r) ?vs)" by (rule less_le_trans)
        then show "b0 \<le> Max (insert (hd r) ?vs)" by (rule less_imp_le)
      qed
      finally show ?thesis .
    qed
    show ?thesis
    proof (cases "hd r = Max (insert (hd r) ?vs)")
      case eqM: True
      have "find (\<lambda>(e, r'). hd r' = Max (insert (hd r) ?vs) \<and> hd r < hd r') obs = None"
        using eqM by (auto simp: find_None_iff)
      then show ?thesis
        using Cons.IH [of "hd r" e] True M eqM by (simp add: x)
    next
      case neM: False
      from ge neM have lt: "hd r < Max (insert (hd r) ?vs)" by (rule le_neq_trans)
      have fnd: "find (\<lambda>(e, r'). hd r' = Max (insert (hd r) ?vs) \<and> hd r < hd r') obs
               = find (\<lambda>(e, r'). hd r' = Max (insert (hd r) ?vs) \<and> b0 < hd r') obs"
        using True lt by (intro find_cong) (auto dest: less_trans)
      have "Max (insert (hd r) ?vs) \<in> insert (hd r) ?vs"
        using fin by (intro Max_in) auto
      with neM have "Max (insert (hd r) ?vs) \<in> ?vs" by auto
      then obtain e' r' where el: "(e', r') \<in> set obs" "hd r' = Max (insert (hd r) ?vs)"
        by auto
      have "b0 < Max (insert (hd r) ?vs)" using True lt by (rule less_trans)
      with el have some: "find (\<lambda>(e, r'). hd r' = Max (insert (hd r) ?vs) \<and> b0 < hd r') obs \<noteq> None"
        by (auto simp: find_None_iff)
      show ?thesis
        using Cons.IH [of "hd r" e] True M fnd neM some by (auto simp: x split: option.splits)
    qed
  next
    case False
    have ge0: "b0 \<le> Max (insert b0 ?vs)" using fin by simp
    have M: "Max (insert b0 (insert (hd r) ?vs)) = Max (insert b0 ?vs)"
    proof -
      have "Max (insert (hd r) (insert b0 ?vs)) = max (hd r) (Max (insert b0 ?vs))"
        using fin by (intro Max_insert) auto
      also have "\<dots> = Max (insert b0 ?vs)"
      proof (rule max.absorb2)
        from False have "hd r \<le> b0" by (simp add: not_less)
        then show "hd r \<le> Max (insert b0 ?vs)" using ge0 by (rule order_trans)
      qed
      finally show ?thesis by (simp only: insert_commute [of b0])
    qed
    show ?thesis
      using Cons.IH [of b0 e0] False M
      by (auto simp: x)
  qed
qed


lemma example_run_epochs:
  "run_epochs [(example_env, example_cb)] example_world =
     (Inr [(2, [50])], snd (run_epochs [(example_env, example_cb)] example_world))"
  using example_epoch_end_fst
  by (simp add: prod_eq_iff example_cb_def example_monitor_eq split: prod.splits sum.splits)

text \<open>
  Claim C2.  For every run of epoch ends on rank 0 that starts with \<open>best_res = 0\<close> and
  \<open>best_epoch = -1\<close> (with at least one metric name) and in which every call returns:
  \<open>best_res\<close> is the maximum of 0 and the values \<open>res[0]\<close> of all epochs so far, and
  \<open>best_epoch\<close> is the epoch of the first call whose \<open>res[0]\<close> reached that maximum,
  or still -1 when no \<open>res[0]\<close> exceeded 0.  No call, whatever its outcome, lowers
  \<open>best_res\<close>; and a call that returns changes \<open>best_res\<close> or \<open>best_epoch\<close> only when
  its \<open>res[0]\<close> exceeds the previous \<open>best_res\<close>, setting them to \<open>res[0]\<close> and to
  the current epoch.
\<close>

theorem best_res_tracks_maximum:
  assumes "run_epochs calls w = (Inr obs, w')"
    and "rank_id (monitor w) = 0" and "metric_name (monitor w) \<noteq> []"
    and "best_res (monitor w) = 0" and "best_epoch (monitor w) = - 1"
  shows "best_res (monitor w') = Max (insert 0 (set (map (\<lambda>(e, r). hd r) obs)))
       \<and> best_epoch (monitor w') =
           (case find (\<lambda>(e, r). hd r = best_res (monitor w') \<and> 0 < hd r) obs of
              Some (e, r) \<Rightarrow> e | None \<Rightarrow> - 1)
       \<and> (\<forall>ev cb v. best_res (monitor v) \<le> best_res (monitor (snd (on_train_epoch_end ev cb v))))
       \<and> (\<forall>ev cb v res v'.
             on_train_epoch_end ev cb v = (Inr res, v')
             \<and> (best_res (monitor v') \<noteq> best_res (monitor v)
                \<or> best_epoch (monitor v') \<noteq> best_epoch (monitor v))
             \<longrightarrow> res \<noteq> [] \<and> best_res (monitor v) < hd res \<and> best_res (monitor v') = hd res
               \<and> best_epoch (monitor v') = cur_epoch_num cb + last_epoch (monitor v))"
proof (intro conjI allI impI)
  have "0 \<le> best_res (monitor w)" using assms(4) by simp
  from run_epochs_fold [OF assms(1-3) this]
  have pair: "(best_res (monitor w'), best_epoch (monitor w')) =
      (Max (insert 0 (set (map (\<lambda>(e, r). hd r) obs))),
       (case find (\<lambda>(e, r). hd r = Max (insert 0 (set (map (\<lambda>(e, r). hd r) obs))) \<and> 0 < hd r) obs of
          Some (e, r) \<Rightarrow> e | None \<Rightarrow> - 1))"
    by (simp only: assms(4,5) best_fold_max)
  from pair show b: "best_res (monitor w') = Max (insert 0 (set (map (\<lambda>(e, r). hd r) obs)))"
    by simp
  from pair show "best_epoch (monitor w') =
           (case find (\<lambda>(e, r). hd r = best_res (monitor w') \<and> 0 < hd r) obs of
              Some (e, r) \<Rightarrow> e | None \<Rightarrow> - 1)"
    unfolding b by simp
next
  fix ev cb v
  show "best_res (monitor v) \<le> best_res (monitor (snd (on_train_epoch_end ev cb v)))"
    by (rule on_train_epoch_end_best)
next
  fix ev cb v res v'
  assume a: "on_train_epoch_end ev cb v = (Inr res, v')
             \<and> (best_res (monitor v') \<noteq> best_res (monitor v)
                \<or> best_epoch (monitor v') \<noteq> best_epoch (monitor v))"
  then have c: "on_train_epoch_end ev cb v = (Inr res, v')" by simp
  note s = on_train_epoch_end_summary [OF c]
  from s(3) a have
    d: "(dataset_val (monitor v) \<noteq> None
         \<and> val_start_epoch (monitor v) \<le> cur_epoch_num cb + last_epoch (monitor v)
         \<and> val_interval (monitor v) dvd
             cur_epoch_num cb + last_epoch (monitor v) - val_start_epoch (monitor v))
        \<and> rank_id (monitor v) = 0 \<and> best_res (monitor v) < hd res"
    by (auto split: if_splits)
  with s(5) show "res \<noteq> []" by blast
  from d show "best_res (monitor v) < hd res" by simp
  from s(3) d show "best_res (monitor v') = hd res"
    and "best_epoch (monitor v') = cur_epoch_num cb + last_epoch (monitor v)"
    by simp_all
qed

theorem best_res_tracks_maximum_witness:
  "run_epochs [(example_env, example_cb)] example_world =
     (Inr [(2, [50])], snd (run_epochs [(example_env, example_cb)] example_world))
   \<and> rank_id (monitor example_world) = 0 \<and> metric_name (monitor example_world) \<noteq> []
   \<and> best_res (monitor example_world) = 0 \<and> best_epoch (monitor example_world) = - 1
   \<and> best_res (monitor (snd (run_epochs [(example_env, example_cb)] example_world))) = 50
   \<and> best_epoch (monitor (snd (run_epochs [(example_env, example_cb)] example_world))) = 2"
  using best_res_tracks_maximum [OF example_run_epochs]
    example_run_epochs
  by (simp add: example_monitor_eq)

end
